theory Spec2Isabelle
  imports Complex_Main "HOL-Library.Log_Nat"
begin

section \<open>Python and numpy values\<close>

text \<open>
  The embedding follows \<^verbatim>\<open>custom/manual_pipeline.py\<close>. Every place where the
  Python raises is a branch that returns \<open>Inl\<close> of the exception.
\<close>

datatype py_error = ZeroDivisionError | IndexError | ValueError | DegenerateMask

subsection \<open>Floats\<close>

text \<open>
  The image sizes of the pipeline are computed with Python floats and truncated with
  \<^verbatim>\<open>int(...)\<close>, so the rounding of binary64 decides them. A float is modelled by
  the rational number it denotes; \<open>fl\<close> rounds a rational to the nearest number with a
  53-bit significand, ties to even. An int that meets a float is taken as the float of
  the same value, which it is below \<open>2^53\<close>. Overflow and subnormal numbers are outside
  the model: every quantity rounded here is a size, a quotient of two sizes or a product
  of a size or a relative position and such a quotient.
\<close>

definition expo :: "rat \<Rightarrow> int" where
  \<comment> \<open>the binary exponent of a positive number: \<open>2 powi expo q \<le> q < 2 powi (expo q + 1)\<close>\<close>
  "expo q = (if 1 \<le> q then int (floorlog 2 (nat \<lfloor>q\<rfloor>)) - 1
             else - int (floorlog 2 (nat (\<lceil>1 / q\<rceil> - 1))))"

definition rne :: "rat \<Rightarrow> int" where
  \<comment> \<open>round to the nearest integer, ties to even\<close>
  "rne t = (let f = \<lfloor>t\<rfloor>; d = t - of_int f in
     if d < 1 / 2 then f else if 1 / 2 < d then f + 1 else if even f then f else f + 1)"

definition fl :: "rat \<Rightarrow> rat" where
  "fl q = (if q = 0 then 0
           else if q < 0 then
             - (let e = expo (- q) in of_int (rne (- q * 2 powi (52 - e))) * 2 powi (e - 52))
           else (let e = expo q in of_int (rne (q * 2 powi (52 - e))) * 2 powi (e - 52)))"

definition expo_real :: "real \<Rightarrow> int" where
  \<comment> \<open>\<open>expo\<close> for a pixel value\<close>
  "expo_real x = (if 1 \<le> x then int (floorlog 2 (nat \<lfloor>x\<rfloor>)) - 1
                  else - int (floorlog 2 (nat (\<lceil>1 / x\<rceil> - 1))))"

definition rne_real :: "real \<Rightarrow> int" where
  \<comment> \<open>\<open>rne\<close> for a pixel value\<close>
  "rne_real t = (let f = \<lfloor>t\<rfloor>; d = t - of_int f in
     if d < 1 / 2 then f else if 1 / 2 < d then f + 1 else if even f then f else f + 1)"

definition float32 :: "real \<Rightarrow> real" where
  \<comment> \<open>the cast of a float to \<^verbatim>\<open>np.float32\<close>: the nearest number with a 24-bit
      significand, ties to even, with the fixed spacing \<open>2 powi - 149\<close> of the subnormal
      numbers below \<open>2 powi - 126\<close>; the overflow to infinity is outside the model\<close>
  "float32 x = (if x = 0 then 0
                else (let e = max (expo_real \<bar>x\<bar>) (- 126);
                          r = rne_real (\<bar>x\<bar> * 2 powi (23 - e))
                      in sgn x * of_int r * 2 powi (e - 23)))"

definition py_int :: "rat \<Rightarrow> int" where
  \<comment> \<open>\<^verbatim>\<open>int(x)\<close> of a float: truncation towards zero\<close>
  "py_int x = (if 0 \<le> x then \<lfloor>x\<rfloor> else \<lceil>x\<rceil>)"

definition py_truediv :: "int \<Rightarrow> int \<Rightarrow> py_error + rat" where
  \<comment> \<open>\<^verbatim>\<open>a / b\<close> of two ints, and of a float with an integral value and an int\<close>
  "py_truediv a b = (if b = 0 then Inl ZeroDivisionError else Inr (fl (of_int a / of_int b)))"

definition py_mul :: "rat \<Rightarrow> rat \<Rightarrow> rat" where
  \<comment> \<open>\<^verbatim>\<open>x * y\<close> where one factor is a float and the other a float or an int below \<open>2^53\<close>\<close>
  "py_mul x y = fl (x * y)"

subsection \<open>Arrays\<close>

text \<open>
  A numpy array of rank two is a list of rows, one of rank three a list of rows of
  pixels, each pixel the list of its channels. The shape of an array that the pipeline
  makes itself, a crop or a canvas of zeros, is computed from the slice or the size it is
  made with. The shape of an input image and of the result of an external function is
  read off the first row and the first pixel of the list, so such an array without rows
  has no columns; the one exception is a patch that is assigned to a slice, whose
  shape is \<open>patch_shape\<close>. Pixel values are real numbers: a float64 value is the real
  it denotes, the rounding of float64 pixel arithmetic, infinities and NaN are outside
  the model, and the cast to float32 of a value stored in a float32 array is
  \<open>float32\<close>.
\<close>

type_synonym img2 = "real list list"
type_synonym img3 = "real list list list"

definition shape0 :: "'a list \<Rightarrow> nat" where
  "shape0 a = length a"

definition shape1 :: "'a list list \<Rightarrow> nat" where
  "shape1 a = (case a of [] \<Rightarrow> 0 | r # _ \<Rightarrow> length r)"

definition shape2 :: "'a list list list \<Rightarrow> nat" where
  "shape2 a = (case a of [] \<Rightarrow> 0 | r # _ \<Rightarrow> (case r of [] \<Rightarrow> 0 | p # _ \<Rightarrow> length p))"

definition has_shape :: "'a list list \<Rightarrow> nat \<Rightarrow> nat \<Rightarrow> bool" where
  \<comment> \<open>a rectangular array of \<open>h\<close> rows and \<open>w\<close> columns\<close>
  "has_shape a h w = (length a = h \<and> list_all (\<lambda>r. length r = w) a)"

definition tabulate2 :: "nat \<Rightarrow> nat \<Rightarrow> (nat \<Rightarrow> nat \<Rightarrow> 'a) \<Rightarrow> 'a list list" where
  "tabulate2 h w f = map (\<lambda>i. map (\<lambda>j. f i j) [0..<w]) [0..<h]"

definition np_zeros :: "int \<Rightarrow> int \<Rightarrow> py_error + img2" where
  \<comment> \<open>\<^verbatim>\<open>np.zeros((h, w), dtype=np.float32)\<close>: a negative dimension is refused. The
      result has shape \<open>(h, w)\<close>; its dtype acts where values are stored in it, in
      \<open>set_slice2\<close>.\<close>
  "np_zeros h w = (if h < 0 \<or> w < 0 then Inl ValueError
                   else Inr (tabulate2 (nat h) (nat w) (\<lambda>i j. 0)))"

definition add_chan :: "'a list list \<Rightarrow> 'a list list list" where
  \<comment> \<open>\<^verbatim>\<open>a[:, :, np.newaxis]\<close>\<close>
  "add_chan a = map (map (\<lambda>x. [x])) a"

definition chan :: "nat \<Rightarrow> 'a list list list \<Rightarrow> py_error + 'a list list" where
  \<comment> \<open>\<^verbatim>\<open>a[:, :, k]\<close>: an index past the last channel is an \<^verbatim>\<open>IndexError\<close>\<close>
  "chan k a = (if shape2 a \<le> k then Inl IndexError else Inr (map (map (\<lambda>p. p ! k)) a))"

definition chans_upto :: "nat \<Rightarrow> 'a list list list \<Rightarrow> 'a list list list" where
  \<comment> \<open>\<^verbatim>\<open>a[:, :, 0:k]\<close>\<close>
  "chans_upto k a = map (map (take k)) a"

definition crop2 :: "nat \<Rightarrow> nat \<Rightarrow> nat \<Rightarrow> nat \<Rightarrow> 'a list list \<Rightarrow> 'a list list" where
  \<comment> \<open>\<^verbatim>\<open>a[r0:r1, c0:c1]\<close> with bounds that are not negative\<close>
  "crop2 r0 r1 c0 c1 a = map (\<lambda>r. drop c0 (take c1 r)) (drop r0 (take r1 a))"

definition np_pow :: "img3 \<Rightarrow> real \<Rightarrow> img3" where
  \<comment> \<open>\<^verbatim>\<open>a ** g\<close>, element by element\<close>
  "np_pow a g = map (map (map (\<lambda>x. x powr g))) a"

subsection \<open>Slices and slice assignment\<close>

definition slice_index :: "nat \<Rightarrow> int \<Rightarrow> nat" where
  \<comment> \<open>one bound of a slice on an axis of length \<open>n\<close>: a negative bound counts from the
      end, and the result is clamped to \<open>0..n\<close>\<close>
  "slice_index n k = (if k < 0 then (if k + int n < 0 then 0 else nat (k + int n))
                      else if int n \<le> k then n else nat k)"

definition slice_bounds :: "nat \<Rightarrow> int \<Rightarrow> int \<Rightarrow> nat \<times> nat" where
  \<comment> \<open>start and length of \<^verbatim>\<open>start:stop\<close> on an axis of length \<open>n\<close>\<close>
  "slice_bounds n start stop =
     (let s = slice_index n start; e = slice_index n stop in (s, e - s))"

definition broadcastable :: "nat \<Rightarrow> nat \<Rightarrow> bool" where
  \<comment> \<open>an axis of length \<open>s\<close> can be assigned to one of length \<open>d\<close>\<close>
  "broadcastable s d = (s = d \<or> s = 1)"

definition patch_shape :: "'a list list \<Rightarrow> int \<times> int \<Rightarrow> nat \<times> nat" where
  \<comment> \<open>the shape of \<open>a\<close>, a result of \<^verbatim>\<open>resize\<close> to the size \<open>sz\<close>. It is read off the
      list but for the width of an array without rows, which a list of rows does not
      record: \<^verbatim>\<open>resize\<close> returns an array of the size it is asked for.\<close>
  "patch_shape a sz = (shape0 a, if shape0 a = 0 then nat (snd sz) else shape1 a)"

definition set_slice2 ::
  "('a \<Rightarrow> 'a) \<Rightarrow> nat \<times> nat \<Rightarrow> 'a list list \<Rightarrow> int \<Rightarrow> int \<Rightarrow> int \<Rightarrow> int
     \<Rightarrow> nat \<times> nat \<Rightarrow> 'a list list \<Rightarrow> py_error + 'a list list" where
  \<comment> \<open>\<^verbatim>\<open>dst[r0:r1, c0:c1] = src\<close> for a destination of shape \<open>shp\<close> whose dtype has the
      cast \<open>cast\<close> and a source of shape \<open>src_shp\<close>: numpy clamps the slice to the
      array, refuses a source that cannot be broadcast to the shape of the slice, and
      stores the cast of each value\<close>
  "set_slice2 cast shp dst r0 r1 c0 c1 src_shp src =
     (let (rs, rl) = slice_bounds (fst shp) r0 r1;
          (cs, cl) = slice_bounds (snd shp) c0 c1;
          sh = fst src_shp; sw = snd src_shp
      in if broadcastable sh rl \<and> broadcastable sw cl then
           Inr (tabulate2 (fst shp) (snd shp) (\<lambda>i j.
                  if rs \<le> i \<and> i < rs + rl \<and> cs \<le> j \<and> j < cs + cl
                  then cast (src ! (if sh = 1 then 0 else i - rs) ! (if sw = 1 then 0 else j - cs))
                  else dst ! i ! j))
         else Inl ValueError)"

definition bdim :: "nat \<Rightarrow> nat \<Rightarrow> nat option" where
  \<comment> \<open>the length of an axis of the result of an elementwise operation\<close>
  "bdim d e = (if d = e then Some d else if d = 1 then Some e else if e = 1 then Some d
               else None)"

definition bidx :: "nat \<Rightarrow> nat \<Rightarrow> nat" where
  \<comment> \<open>an axis of length one is read at index 0 whatever the index of the result\<close>
  "bidx d i = (if d = 1 then 0 else i)"

definition np_binop :: "(real \<Rightarrow> real \<Rightarrow> real) \<Rightarrow> img3 \<Rightarrow> img3 \<Rightarrow> py_error + img3" where
  \<comment> \<open>an elementwise operation of two arrays of rank three, with numpy's broadcasting\<close>
  "np_binop f a b =
     (case bdim (shape0 a) (shape0 b) of None \<Rightarrow> Inl ValueError | Some h \<Rightarrow>
      case bdim (shape1 a) (shape1 b) of None \<Rightarrow> Inl ValueError | Some w \<Rightarrow>
      case bdim (shape2 a) (shape2 b) of None \<Rightarrow> Inl ValueError | Some c \<Rightarrow>
        Inr (map (\<lambda>i. map (\<lambda>j. map (\<lambda>k.
               f (a ! bidx (shape0 a) i ! bidx (shape1 a) j ! bidx (shape2 a) k)
                 (b ! bidx (shape0 b) i ! bidx (shape1 b) j ! bidx (shape2 b) k))
             [0..<c]) [0..<w]) [0..<h]))"

section \<open>The helpers of \<^verbatim>\<open>utils\<close>\<close>

text \<open>
  \<^verbatim>\<open>manual_pipeline.py\<close> imports \<^verbatim>\<open>utils\<close> and calls its \<^verbatim>\<open>get_bbox\<close>,
  \<^verbatim>\<open>composite_crop\<close> and \<^verbatim>\<open>composite_depth\<close>. That module is not among the sources,
  so the three functions are written from the specification.
\<close>

definition get_bbox :: "img2 \<Rightarrow> py_error + nat \<times> nat \<times> nat \<times> nat" where
  \<comment> \<open>Modelled from the spec: \<^verbatim>\<open>utils.get_bbox\<close> is missing. The specification (4.1, 7, 8)
      has \<open>(row_min, row_max, col_min, col_max)\<close>, the tightest rectangle that holds the
      non-zero entries of the mask, with \<open>row_min \<le> row_max\<close>, and a \<open>DegenerateMask\<close>
      error for a mask that is entirely zero.\<close>
  "get_bbox fg_mask =
     (let rows = filter (\<lambda>i. list_ex (\<lambda>x. x \<noteq> 0) (fg_mask ! i)) [0..<shape0 fg_mask];
          cols = filter (\<lambda>j. list_ex (\<lambda>r. j < length r \<and> r ! j \<noteq> 0) fg_mask) [0..<shape1 fg_mask]
      in if rows = [] \<or> cols = [] then Inl DegenerateMask
         else Inr (hd rows, last rows, hd cols, last cols))"

definition in_footprint :: "int \<times> int \<Rightarrow> 'p list list \<Rightarrow> img2 \<Rightarrow> nat \<Rightarrow> nat \<Rightarrow> bool" where
  \<comment> \<open>Modelled from the spec: the footprint of the missing \<^verbatim>\<open>utils.composite_crop\<close>.
      Pixel \<open>(i, j)\<close> of the canvas lies under the patch placed with its top-left corner
      at \<open>placement\<close>; the patch ends where the source or its mask ends.\<close>
  "in_footprint placement src_buffer src_mask i j =
     (let i' = nat (int i - fst placement); j' = nat (int j - snd placement)
      in fst placement \<le> int i \<and> snd placement \<le> int j
         \<and> i' < length src_buffer \<and> j' < length (src_buffer ! i')
         \<and> i' < length src_mask \<and> j' < length (src_mask ! i'))"

definition composite ::
  "(real \<Rightarrow> 'p \<Rightarrow> 'p \<Rightarrow> 'p) \<Rightarrow> 'p list list \<Rightarrow> int \<times> int \<Rightarrow> 'p list list \<Rightarrow> img2 \<Rightarrow> 'p list list" where
  \<comment> \<open>Modelled from the spec: the body shared by the missing \<^verbatim>\<open>utils.composite_crop\<close>
      and \<^verbatim>\<open>utils.composite_depth\<close>, the compositor of 4.2 for any kind of pixel. Inside
      the footprint the new pixel blends source and destination with the weight of the
      mask, elsewhere it is the destination's; the result is a new buffer of the
      destination's shape.\<close>
  "composite blend dst_buffer placement src_buffer src_mask =
     map (\<lambda>i. map (\<lambda>j.
            if in_footprint placement src_buffer src_mask i j then
              (let i' = nat (int i - fst placement); j' = nat (int j - snd placement)
               in blend (src_mask ! i' ! j') (src_buffer ! i' ! j') (dst_buffer ! i ! j))
            else dst_buffer ! i ! j)
          [0..<length (dst_buffer ! i)])
       [0..<length dst_buffer]"

definition blend_value :: "real \<Rightarrow> real \<Rightarrow> real \<Rightarrow> real" where
  \<comment> \<open>Modelled from the spec: the blend of the missing \<^verbatim>\<open>utils.composite_depth\<close>,
      \<open>mask\<cdot>src + (1 - mask)\<cdot>dst\<close> of 4.2\<close>
  "blend_value m s d = m * s + (1 - m) * d"

definition blend_pixel :: "real \<Rightarrow> real list \<Rightarrow> real list \<Rightarrow> real list" where
  \<comment> \<open>Modelled from the spec: the blend of the missing \<^verbatim>\<open>utils.composite_crop\<close>, that
      of 4.2 in every channel of the destination\<close>
  "blend_pixel m s d = map (\<lambda>c. blend_value m (s ! c) (d ! c)) [0..<length d]"

definition composite_crop :: "img3 \<Rightarrow> int \<times> int \<Rightarrow> img3 \<Rightarrow> img2 \<Rightarrow> img3" where
  \<comment> \<open>Modelled from the spec: \<^verbatim>\<open>utils.composite_crop\<close> is missing; it is the compositor
      of 4.2 on buffers with a channel axis (colour, inverse shading, normals).\<close>
  "composite_crop dst_buffer placement src_buffer src_mask =
     composite blend_pixel dst_buffer placement src_buffer src_mask"

definition composite_depth :: "img2 \<Rightarrow> int \<times> int \<Rightarrow> img2 \<Rightarrow> img2 \<Rightarrow> img2" where
  \<comment> \<open>Modelled from the spec: \<^verbatim>\<open>utils.composite_depth\<close> is missing; 4.2 has depth
      compositing as the same substitution of values, on a buffer without a channel
      axis.\<close>
  "composite_depth dst_buffer placement src_buffer src_mask =
     composite blend_value dst_buffer placement src_buffer src_mask"

section \<open>The pipeline\<close>

text \<open>
  The networks and library functions that \<^verbatim>\<open>run_full_pipeline\<close> calls are parameters
  of the model, one field each: what they compute is not the pipeline's business, and a
  failure inside them is not modelled. \<^verbatim>\<open>load_image\<close> is applied before the model
  starts, so the pipeline takes the two loaded images. The anti-aliasing argument of
  \<^verbatim>\<open>resize\<close> is \<open>None\<close> where the call leaves it out. \<^verbatim>\<open>max_edge_size\<close> is an
  int, as its default and the module constant are; \<^verbatim>\<open>fg_top_left_pos\<close> and
  \<^verbatim>\<open>fg_scale_relative\<close> are floats.
\<close>

record externals =
  resize3 :: "img3 \<Rightarrow> int \<times> int \<Rightarrow> bool option \<Rightarrow> img3"
  resize2 :: "img2 \<Rightarrow> int \<times> int \<Rightarrow> bool option \<Rightarrow> img2"
  get_depth :: "img3 \<Rightarrow> img2"
  run_pipeline :: "img3 \<Rightarrow> img2 \<times> img3"
  get_omni_normals :: "img3 \<Rightarrow> img3"
  harmonize_albedo :: "img3 \<Rightarrow> img3 \<Rightarrow> img3 \<Rightarrow> img3"
  uninvert :: "img3 \<Rightarrow> img3"
  get_light_coeffs :: "img2 \<Rightarrow> img3 \<Rightarrow> img3 \<Rightarrow> real list \<times> img3"
  compute_reshading :: "img3 \<Rightarrow> img3 \<Rightarrow> img3 \<Rightarrow> img2 \<Rightarrow> img3 \<Rightarrow> img3 \<Rightarrow> real list \<Rightarrow> img3"

definition MAX_EDGE_SIZE :: int where
  "MAX_EDGE_SIZE = 1024"

text \<open>
  The steps follow the numbered sections of \<^verbatim>\<open>run_full_pipeline\<close>. Each returns a
  record of the local variables it sets, under their names in the source; where a
  variable is assigned twice the record has its last value. Loading the models (step 1)
  and writing the images (step 8) are left out.
\<close>

subsection \<open>Steps 2.1 and 2.2: load and resize\<close>

text \<open>
  \<open>bb\<close> is the bounding box and \<open>crop_shape\<close> the shape of the crop before it is
  rescaled, \<^verbatim>\<open>fg_im_crop.shape\<close> of line 80, from which \<^verbatim>\<open>max_dim\<close> and
  \<^verbatim>\<open>fg_scale\<close> are computed: the lengths of the slices \<^verbatim>\<open>bb[0]:bb[1]\<close> and
  \<^verbatim>\<open>bb[2]:bb[3]\<close> on the two axes of the foreground image.
\<close>

record loaded =
  bg_height :: int
  bg_width :: int
  bg_im :: img3
  bb :: "nat \<times> nat \<times> nat \<times> nat"
  crop_shape :: "nat \<times> nat"
  fg_scale :: rat
  cropped_height :: int
  cropped_width :: int
  fg_im_crop :: img3
  fg_mask_crop :: img2

definition load_and_resize :: "externals \<Rightarrow> img3 \<Rightarrow> img3 \<Rightarrow> int \<Rightarrow> py_error + loaded" where
  "load_and_resize ext bg_im_original fg_im_transparent max_edge_size =
     (let max_dim = max (shape0 bg_im_original) (shape1 bg_im_original) in
      case py_truediv max_edge_size (int max_dim) of Inl e \<Rightarrow> Inl e | Inr scale \<Rightarrow>
      let bg_height' = py_int (py_mul (of_nat (shape0 bg_im_original)) scale);
          bg_width' = py_int (py_mul (of_nat (shape1 bg_im_original)) scale);
          bg_im' = resize3 ext bg_im_original (bg_height', bg_width') None;
          fg_im = chans_upto 3 fg_im_transparent in
      case chan 3 fg_im_transparent of Inl e \<Rightarrow> Inl e | Inr fg_mask \<Rightarrow>
      case get_bbox fg_mask of Inl e \<Rightarrow> Inl e | Inr (bb0, bb1, bb2, bb3) \<Rightarrow>
      let fg_im_crop' = crop2 bb0 bb1 bb2 bb3 fg_im;
          fg_mask_crop' = crop2 bb0 bb1 bb2 bb3 fg_mask;
          crop_shape' = (snd (slice_bounds (shape0 fg_im) (int bb0) (int bb1)),
                         snd (slice_bounds (shape1 fg_im) (int bb2) (int bb3)));
          max_dim = max (fst crop_shape') (snd crop_shape') in
      case py_truediv MAX_EDGE_SIZE (int max_dim) of Inl e \<Rightarrow> Inl e | Inr fg_scale' \<Rightarrow>
      let cropped_height' = py_int (py_mul (of_nat (fst crop_shape')) fg_scale');
          cropped_width' = py_int (py_mul (of_nat (snd crop_shape')) fg_scale')
      in Inr \<lparr>bg_height = bg_height', bg_width = bg_width', bg_im = bg_im',
               bb = (bb0, bb1, bb2, bb3),
               crop_shape = crop_shape',
               fg_scale = fg_scale',
               cropped_height = cropped_height', cropped_width = cropped_width',
               fg_im_crop = resize3 ext fg_im_crop' (cropped_height', cropped_width') None,
               fg_mask_crop =
                 resize2 ext fg_mask_crop' (cropped_height', cropped_width') None\<rparr>)"

subsection \<open>Steps 3 to 5: depth, shading, albedo and normals\<close>

record estimates =
  im_depth :: img2
  fg_im_depth :: img2
  im_inv_shading :: img3
  im_albedo :: img3
  fg_im_inv_shading :: img3
  fg_im_albedo :: img3
  im_normals :: img3
  fg_im_normals :: img3

definition estimate :: "externals \<Rightarrow> loaded \<Rightarrow> estimates" where
  "estimate ext ld =
     (let result_bg = run_pipeline ext (np_pow (bg_im ld) (22 / 10));
          result_fg = run_pipeline ext (np_pow (fg_im_crop ld) (22 / 10))
      in \<lparr>im_depth = get_depth ext (bg_im ld),
          fg_im_depth = get_depth ext (fg_im_crop ld),
          im_inv_shading = add_chan (fst result_bg), im_albedo = snd result_bg,
          fg_im_inv_shading = add_chan (fst result_fg), fg_im_albedo = snd result_fg,
          im_normals = get_omni_normals ext (bg_im ld),
          fg_im_normals = get_omni_normals ext (fg_im_crop ld)\<rparr>)"

subsection \<open>Step 6.1: the rescaled foreground and its placement\<close>

record rescaled =
  fg_scaled_height :: int
  fg_scaled_width :: int
  fg_im_rescaled :: img3
  fg_mask_rescaled :: img2
  fg_depth_rescaled :: img2
  fg_inv_shading_rescaled :: img3
  fg_normals_rescaled :: img3
  top :: int
  left :: int

definition rescale_fg :: "externals \<Rightarrow> loaded \<Rightarrow> estimates \<Rightarrow> rat \<times> rat \<Rightarrow> rat \<Rightarrow> rescaled" where
  "rescale_fg ext ld es fg_top_left_pos fg_scale_relative =
     (let fg_scaled_height' = py_int (py_mul (of_int (cropped_height ld)) fg_scale_relative);
          fg_scaled_width' = py_int (py_mul (of_int (cropped_width ld)) fg_scale_relative);
          sz = (fg_scaled_height', fg_scaled_width')
      in \<lparr>fg_scaled_height = fg_scaled_height', fg_scaled_width = fg_scaled_width',
          fg_im_rescaled = resize3 ext (fg_im_crop ld) sz (Some True),
          fg_mask_rescaled = resize2 ext (fg_mask_crop ld) sz (Some True),
          fg_depth_rescaled = resize2 ext (fg_im_depth es) sz (Some True),
          fg_inv_shading_rescaled = resize3 ext (fg_im_inv_shading es) sz (Some True),
          fg_normals_rescaled = resize3 ext (fg_im_normals es) sz (Some True),
          top = py_int (py_mul (fst fg_top_left_pos) (of_int (bg_height ld))),
          left = py_int (py_mul (snd fg_top_left_pos) (of_int (bg_width ld)))\<rparr>)"

subsection \<open>Step 6.2: mask and depth on the full canvas\<close>

text \<open>
  The two canvases are made with \<^verbatim>\<open>dtype=np.float32\<close>, so each value that is
  assigned to them is cast to float32. \<open>canvas\<close> is the shape of the canvases and
  \<open>sz\<close> the size that the patches were resized to in step 6.1.
\<close>

record full_buffers =
  fg_full_mask :: img3
  fg_full_depth :: img2

definition fg_full_buffers :: "loaded \<Rightarrow> rescaled \<Rightarrow> py_error + full_buffers" where
  "fg_full_buffers ld rs =
     (let canvas = (nat (bg_height ld), nat (bg_width ld));
          sz = (fg_scaled_height rs, fg_scaled_width rs) in
      case np_zeros (bg_height ld) (bg_width ld) of Inl e \<Rightarrow> Inl e | Inr zeros_mask \<Rightarrow>
      case set_slice2 float32 canvas zeros_mask
             (top rs) (top rs + fg_scaled_height rs) (left rs) (left rs + fg_scaled_width rs)
             (patch_shape (fg_mask_rescaled rs) sz) (fg_mask_rescaled rs)
        of Inl e \<Rightarrow> Inl e | Inr full_mask \<Rightarrow>
      case np_zeros (bg_height ld) (bg_width ld) of Inl e \<Rightarrow> Inl e | Inr zeros_depth \<Rightarrow>
      case set_slice2 float32 canvas zeros_depth
             (top rs) (top rs + fg_scaled_height rs) (left rs) (left rs + fg_scaled_width rs)
             (patch_shape (fg_depth_rescaled rs) sz) (fg_depth_rescaled rs)
        of Inl e \<Rightarrow> Inl e | Inr full_depth \<Rightarrow>
      Inr \<lparr>fg_full_mask = add_chan full_mask, fg_full_depth = full_depth\<rparr>)"

subsection \<open>Step 6.3: the composites\<close>

record composites =
  comp :: img3
  comp_depth :: img2
  comp_inv_shading :: img3
  comp_normals :: img3

definition get_composites :: "loaded \<Rightarrow> estimates \<Rightarrow> rescaled \<Rightarrow> composites" where
  "get_composites ld es rs =
     \<lparr>comp = composite_crop (bg_im ld) (top rs, left rs)
               (fg_im_rescaled rs) (fg_mask_rescaled rs),
      comp_depth = composite_depth (im_depth es) (top rs, left rs)
               (fg_depth_rescaled rs) (fg_mask_rescaled rs),
      comp_inv_shading = composite_crop (im_inv_shading es) (top rs, left rs)
               (fg_inv_shading_rescaled rs) (fg_mask_rescaled rs),
      comp_normals = composite_crop (im_normals es) (top rs, left rs)
               (fg_normals_rescaled rs) (fg_mask_rescaled rs)\<rparr>"

subsection \<open>Step 7.1: the harmonized albedo\<close>

record harmonized =
  comp_albedo_harmonized :: img3
  original_albedo :: img3
  comp_harmonized :: img3

definition harmonize :: "externals \<Rightarrow> full_buffers \<Rightarrow> composites \<Rightarrow> py_error + harmonized" where
  "harmonize ext fb cs =
     (let albedo_harmonized =
            np_pow (harmonize_albedo ext (comp cs) (fg_full_mask fb) (comp_inv_shading cs))
                   (22 / 10) in
      case np_binop (\<lambda>x y. x / y) (np_pow (comp cs) (22 / 10))
                    (uninvert ext (comp_inv_shading cs)) of Inl e \<Rightarrow> Inl e
      | Inr albedo \<Rightarrow>
      case np_binop (\<lambda>x y. x * y) albedo_harmonized
                    (uninvert ext (comp_inv_shading cs)) of Inl e \<Rightarrow> Inl e
      | Inr harmonized \<Rightarrow>
      Inr \<lparr>comp_albedo_harmonized = albedo_harmonized,
            original_albedo = albedo, comp_harmonized = harmonized\<rparr>)"

subsection \<open>Step 7.2: the light coefficients\<close>

record lighting =
  small_height :: int
  small_width :: int
  small_bg_im :: img3
  small_bg_normals :: img3
  small_bg_inv_shading :: img3
  coeffs :: "real list"
  light_vis :: img3

definition light_coeffs :: "externals \<Rightarrow> loaded \<Rightarrow> estimates \<Rightarrow> py_error + lighting" where
  "light_coeffs ext ld es =
     (let max_dim = max (bg_height ld) (bg_width ld) in
      case py_truediv 512 max_dim of Inl e \<Rightarrow> Inl e | Inr f \<Rightarrow>
      let small_height' = py_int (py_mul (of_int (bg_height ld)) f);
          small_width' = py_int (py_mul (of_int (bg_width ld)) f);
          small_bg_im' = resize3 ext (bg_im ld) (small_height', small_width') (Some True);
          small_bg_normals' = get_omni_normals ext small_bg_im';
          small_bg_inv_shading' =
            resize3 ext (im_inv_shading es) (small_height', small_width') (Some True) in
      case chan 0 small_bg_inv_shading' of Inl e \<Rightarrow> Inl e | Inr shading0 \<Rightarrow>
      let r = get_light_coeffs ext shading0 small_bg_normals' small_bg_im'
      in Inr \<lparr>small_height = small_height', small_width = small_width',
               small_bg_im = small_bg_im', small_bg_normals = small_bg_normals',
               small_bg_inv_shading = small_bg_inv_shading',
               coeffs = fst r, light_vis = snd r\<rparr>)"

subsection \<open>The whole run\<close>

record run =
  loaded_of :: loaded
  estimates_of :: estimates
  rescaled_of :: rescaled
  full_of :: full_buffers
  composites_of :: composites
  harmonized_of :: harmonized
  lighting_of :: lighting
  main_result :: img3

definition run_full_pipeline ::
  "externals \<Rightarrow> img3 \<Rightarrow> img3 \<Rightarrow> rat \<times> rat \<Rightarrow> rat \<Rightarrow> int \<Rightarrow> py_error + run" where
  "run_full_pipeline ext bg_im_original fg_im_transparent fg_top_left_pos fg_scale_relative
       max_edge_size =
     (case load_and_resize ext bg_im_original fg_im_transparent max_edge_size of
        Inl e \<Rightarrow> Inl e | Inr ld \<Rightarrow>
      let es = estimate ext ld;
          rs = rescale_fg ext ld es fg_top_left_pos fg_scale_relative in
      case fg_full_buffers ld rs of Inl e \<Rightarrow> Inl e | Inr fb \<Rightarrow>
      let cs = get_composites ld es rs in
      case harmonize ext fb cs of Inl e \<Rightarrow> Inl e | Inr hm \<Rightarrow>
      case light_coeffs ext ld es of Inl e \<Rightarrow> Inl e | Inr lt \<Rightarrow>
      Inr \<lparr>loaded_of = ld, estimates_of = es, rescaled_of = rs, full_of = fb,
            composites_of = cs, harmonized_of = hm, lighting_of = lt,
            main_result = compute_reshading ext (comp_harmonized hm) (fg_full_mask fb)
              (comp_inv_shading cs) (comp_depth cs) (comp_normals cs)
              (comp_albedo_harmonized hm) (coeffs lt)\<rparr>)"

section \<open>A run on small inputs\<close>

text \<open>
  Stand-ins for the networks, simple enough to evaluate: \<^verbatim>\<open>resize\<close> fills the requested
  shape with the first pixel of its input, the estimators return constant maps of the
  size of their input, the harmonizer returns the composite and the reshading model the
  harmonized composite.
\<close>

definition first_pixel :: "'a \<Rightarrow> 'a list list \<Rightarrow> 'a" where
  "first_pixel d a = (case a of [] \<Rightarrow> d | r # _ \<Rightarrow> (case r of [] \<Rightarrow> d | p # _ \<Rightarrow> p))"

definition stub_externals :: externals where
  "stub_externals =
     \<lparr>resize3 = (\<lambda>a sz aa. replicate (nat (fst sz)) (replicate (nat (snd sz)) (first_pixel [] a))),
      resize2 = (\<lambda>a sz aa. replicate (nat (fst sz)) (replicate (nat (snd sz)) (first_pixel 0 a))),
      get_depth = map (map (\<lambda>p. 1)),
      run_pipeline = (\<lambda>a. (map (map (\<lambda>p. 1 / 2)) a, a)),
      get_omni_normals = map (map (\<lambda>p. [0, 0, 1])),
      harmonize_albedo = (\<lambda>c m s. c),
      uninvert = map (map (map (\<lambda>x. 1 / (1 - x)))),
      get_light_coeffs = (\<lambda>s n g. ([0, 0, 1, 0], g)),
      compute_reshading = (\<lambda>c m s d n a k. c)\<rparr>"

definition example_bg :: img3 where
  \<comment> \<open>a white background of 2 by 2 pixels\<close>
  "example_bg = [[[1, 1, 1], [1, 1, 1]], [[1, 1, 1], [1, 1, 1]]]"

definition example_fg :: img3 where
  \<comment> \<open>an opaque black foreground of 3 by 3 pixels\<close>
  "example_fg = [[[0, 0, 0, 1], [0, 0, 0, 1], [0, 0, 0, 1]],
                 [[0, 0, 0, 1], [0, 0, 0, 1], [0, 0, 0, 1]],
                 [[0, 0, 0, 1], [0, 0, 0, 1], [0, 0, 0, 1]]]"

text \<open>
  The run of the pipeline on these inputs with \<^verbatim>\<open>fg_top_left_pos = (1/2, 1/2)\<close>,
  \<^verbatim>\<open>fg_scale_relative = 1/1024\<close> and \<^verbatim>\<open>max_edge_size = 2\<close>: the foreground becomes
  one pixel, placed on the lower right pixel of the background. The values of every step
  are written out.
\<close>

definition example_loaded :: loaded where
  "example_loaded =
     \<lparr>bg_height = 2, bg_width = 2, bg_im = replicate 2 (replicate 2 [1, 1, 1]),
      bb = (0, 2, 0, 2), crop_shape = (2, 2), fg_scale = 512,
      cropped_height = 1024, cropped_width = 1024,
      fg_im_crop = replicate 1024 (replicate 1024 [0, 0, 0]),
      fg_mask_crop = replicate 1024 (replicate 1024 1)\<rparr>"

definition example_estimates :: estimates where
  "example_estimates =
     \<lparr>im_depth = replicate 2 (replicate 2 1),
      fg_im_depth = replicate 1024 (replicate 1024 1),
      im_inv_shading = replicate 2 (replicate 2 [1 / 2]),
      im_albedo = replicate 2 (replicate 2 [1, 1, 1]),
      fg_im_inv_shading = replicate 1024 (replicate 1024 [1 / 2]),
      fg_im_albedo = replicate 1024 (replicate 1024 [0, 0, 0]),
      im_normals = replicate 2 (replicate 2 [0, 0, 1]),
      fg_im_normals = replicate 1024 (replicate 1024 [0, 0, 1])\<rparr>"

definition example_rescaled :: rescaled where
  "example_rescaled =
     \<lparr>fg_scaled_height = 1, fg_scaled_width = 1,
      fg_im_rescaled = [[[0, 0, 0]]], fg_mask_rescaled = [[1]], fg_depth_rescaled = [[1]],
      fg_inv_shading_rescaled = [[[1 / 2]]], fg_normals_rescaled = [[[0, 0, 1]]],
      top = 1, left = 1\<rparr>"

definition example_full :: full_buffers where
  "example_full =
     \<lparr>fg_full_mask = [[[0], [0]], [[0], [1]]], fg_full_depth = [[0, 0], [0, 1]]\<rparr>"

definition example_composites :: composites where
  "example_composites =
     \<lparr>comp = [[[1, 1, 1], [1, 1, 1]], [[1, 1, 1], [0, 0, 0]]],
      comp_depth = [[1, 1], [1, 1]],
      comp_inv_shading = [[[1 / 2], [1 / 2]], [[1 / 2], [1 / 2]]],
      comp_normals = [[[0, 0, 1], [0, 0, 1]], [[0, 0, 1], [0, 0, 1]]]\<rparr>"

definition example_harmonized :: harmonized where
  "example_harmonized =
     \<lparr>comp_albedo_harmonized = [[[1, 1, 1], [1, 1, 1]], [[1, 1, 1], [0, 0, 0]]],
      original_albedo =
        [[[1 / 2, 1 / 2, 1 / 2], [1 / 2, 1 / 2, 1 / 2]], [[1 / 2, 1 / 2, 1 / 2], [0, 0, 0]]],
      comp_harmonized = [[[2, 2, 2], [2, 2, 2]], [[2, 2, 2], [0, 0, 0]]]\<rparr>"

definition example_lighting :: lighting where
  "example_lighting =
     \<lparr>small_height = 512, small_width = 512,
      small_bg_im = replicate 512 (replicate 512 [1, 1, 1]),
      small_bg_normals = replicate 512 (replicate 512 [0, 0, 1]),
      small_bg_inv_shading = replicate 512 (replicate 512 [1 / 2]),
      coeffs = [0, 0, 1, 0],
      light_vis = replicate 512 (replicate 512 [1, 1, 1])\<rparr>"

definition example_run :: run where
  "example_run =
     \<lparr>loaded_of = example_loaded, estimates_of = example_estimates,
      rescaled_of = example_rescaled, full_of = example_full,
      composites_of = example_composites, harmonized_of = example_harmonized,
      lighting_of = example_lighting,
      main_result = [[[2, 2, 2], [2, 2, 2]], [[2, 2, 2], [0, 0, 0]]]\<rparr>"

text \<open>
  Two more runs: one on a foreground of 50 by 50 opaque pixels, whose crop is 49 pixels
  wide and high, with \<^verbatim>\<open>max_edge_size = 512\<close>, and one on a background of 49 by 49
  pixels with \<^verbatim>\<open>max_edge_size = 49\<close>.
\<close>

definition example_fg50 :: img3 where
  "example_fg50 = replicate 50 (replicate 50 [0, 0, 0, 1])"

definition example_run50 :: run where
  "example_run50 =
     projr (run_full_pipeline stub_externals example_bg example_fg50 (1 / 2, 1 / 2) (1 / 512)
              512)"

definition example_bg49 :: img3 where
  "example_bg49 = replicate 49 (replicate 49 [1, 1, 1])"

definition example_run49 :: run where
  "example_run49 =
     projr (run_full_pipeline stub_externals example_bg49 example_fg (1 / 2, 1 / 2) (1 / 1024)
              49)"

text \<open>The first run again, with \<^verbatim>\<open>max_edge_size = 512\<close>.\<close>

definition example_run512 :: run where
  "example_run512 =
     projr (run_full_pipeline stub_externals example_bg example_fg (1 / 2, 1 / 2) (1 / 1024)
              512)"

text \<open>
  The first run with the foreground at \<open>1/512\<close> of its rescaled size, a patch of 2 by 2
  pixels: what steps 2 and 6.1 give for \<^verbatim>\<open>max_edge_size = 4\<close>, where the patch lies
  inside the canvas of 4 by 4 pixels.
\<close>

definition example_loaded4 :: loaded where
  "example_loaded4 =
     example_loaded\<lparr>bg_height := 4, bg_width := 4, bg_im := replicate 4 (replicate 4 [1, 1, 1])\<rparr>"

definition example_rescaled4 :: rescaled where
  "example_rescaled4 =
     \<lparr>fg_scaled_height = 2, fg_scaled_width = 2,
      fg_im_rescaled = replicate 2 (replicate 2 [0, 0, 0]),
      fg_mask_rescaled = replicate 2 (replicate 2 1),
      fg_depth_rescaled = replicate 2 (replicate 2 1),
      fg_inv_shading_rescaled = replicate 2 (replicate 2 [1 / 2]),
      fg_normals_rescaled = replicate 2 (replicate 2 [0, 0, 1]),
      top = 2, left = 2\<rparr>"

text \<open>
  The same patch with a mask of 0.1 in every pixel: the float64 nearest to one tenth.
\<close>

definition example_rescaled4m :: rescaled where
  "example_rescaled4m =
     example_rescaled4\<lparr>fg_mask_rescaled :=
       replicate 2 (replicate 2 (3602879701896397 / 36028797018963968))\<rparr>"
section \<open>Rounding\<close>

lemma expo_ge1: assumes "1 \<le> q" shows "2 powi expo q \<le> q \<and> q < 2 powi (expo q + 1)"
proof -
  define n where "n = nat \<lfloor>q\<rfloor>"
  have n: "0 < n" using assms by (simp add: n_def)
  have nq: "of_nat n \<le> q" "q < of_nat n + 1" using assms unfolding n_def by (simp_all add: of_nat_nat) linarith+
  from floorlog_bounds[OF n, of 2] have b: "2 ^ (floorlog 2 n - 1) \<le> n" "n < 2 ^ floorlog 2 n" by auto
  have fpos: "0 < floorlog 2 n" using floorlog_eq_zero_iff[of 2 n] n by auto
  have e: "expo q = int (floorlog 2 n - 1)" using assms fpos by (simp add: expo_def n_def)
  have e1: "expo q + 1 = int (floorlog 2 n)" using e fpos by simp
  have "(2::rat) powi expo q = of_nat (2 ^ (floorlog 2 n - 1))" unfolding e by simp
  also have "\<dots> \<le> of_nat n" using b(1) by (simp only: of_nat_le_iff)
  finally have A: "2 powi expo q \<le> q" using nq by simp
  have "Suc n \<le> 2 ^ floorlog 2 n" using b(2) by simp
  then have "(of_nat (Suc n) :: rat) \<le> of_nat (2 ^ floorlog 2 n)" by (simp only: of_nat_le_iff)
  then have "of_nat n + (1::rat) \<le> of_nat (2 ^ floorlog 2 n)" by simp
  also have "\<dots> = 2 powi (expo q + 1)" unfolding e1 by simp
  finally show ?thesis using A nq by simp
qed

lemma expo_lt1: assumes "0 < q" "q < 1" shows "2 powi expo q \<le> q \<and> q < 2 powi (expo q + 1)"
proof -
  define m where "m = nat (\<lceil>1 / q\<rceil> - 1)"
  define k where "k = floorlog 2 m"
  have i1: "1 < 1 / q" using assms by simp
  then have c2: "2 \<le> \<lceil>1 / q\<rceil>" by linarith
  have m: "0 < m" using c2 by (simp add: m_def)
  have mq: "of_nat m < 1 / q" "1 / q \<le> of_nat m + 1"
    using c2 unfolding m_def by (simp_all add: of_nat_nat) linarith+
  from floorlog_bounds[OF m, of 2] have b: "2 ^ (k - 1) \<le> m" "m < 2 ^ k" by (auto simp: k_def)
  have kpos: "0 < k" using floorlog_eq_zero_iff[of 2 m] m by (auto simp: k_def)
  have e: "expo q = - int k" using assms by (simp add: expo_def m_def k_def)
  have "Suc m \<le> 2 ^ k" using b(2) by simp
  then have "(of_nat (Suc m) :: rat) \<le> of_nat (2 ^ k)" by (simp only: of_nat_le_iff)
  then have "1 / q \<le> 2 ^ k" using mq(2) by simp
  then have "1 \<le> 2 ^ k * q" using assms(1) by (simp add: pos_divide_le_eq mult.commute)
  then have A: "2 powi expo q \<le> q" unfolding e
    by (simp add: power_int_minus field_simps)
  have "(of_nat (2 ^ (k - 1)) :: rat) \<le> of_nat m" using b(1) by (simp only: of_nat_le_iff)
  then have "(2::rat) ^ (k - 1) \<le> of_nat m" by simp
  then have "2 ^ (k - 1) < 1 / q" using mq(1) by linarith
  then have "2 ^ (k - 1) * q < 1" using assms(1) by (simp add: pos_less_divide_eq)
  moreover have "expo q + 1 = - int (k - 1)" using e kpos by simp
  ultimately have B: "q < 2 powi (expo q + 1)"
    by (simp add: power_int_minus field_simps)
  show ?thesis using A B by simp
qed

lemma expo_bounds: "0 < q \<Longrightarrow> 2 powi expo q \<le> q \<and> q < 2 powi (expo q + 1)"
  using expo_ge1[of q] expo_lt1[of q] by (cases "1 \<le> q") auto

lemma pow2_less_D: "(2::rat) powi a < 2 powi b \<Longrightarrow> a < b"
  using power_int_increasing[of b a "2::rat"] by (cases "a < b") auto

lemma expo_unique:
  assumes "0 < q" "2 powi e \<le> q" "q < 2 powi (e + 1)" shows "expo q = e"
proof -
  from expo_bounds[OF assms(1)] have b: "2 powi expo q \<le> q" "q < 2 powi (expo q + 1)" by auto
  have "(2::rat) powi e < 2 powi (expo q + 1)" using assms(2) b(2) by simp
  then have "e < expo q + 1" by (rule pow2_less_D)
  moreover have "(2::rat) powi expo q < 2 powi (e + 1)" using assms(3) b(1) by simp
  then have "expo q < e + 1" by (rule pow2_less_D)
  ultimately show ?thesis by simp
qed

lemma rne_close: "\<bar>of_int (rne t) - t\<bar> \<le> 1 / 2"
  unfolding rne_def Let_def by (auto simp: abs_if) linarith+

lemma rne_ge: "of_int n \<le> t \<Longrightarrow> n \<le> rne t"
proof -
  assume "of_int n \<le> t"
  then have "n \<le> \<lfloor>t\<rfloor>" by (simp add: le_floor_iff)
  then show ?thesis unfolding rne_def Let_def by auto
qed

lemma rne_le: "t \<le> of_int n \<Longrightarrow> rne t \<le> n"
proof -
  assume a: "t \<le> of_int n"
  have f: "\<lfloor>t\<rfloor> \<le> n" using a by (simp add: floor_le_iff) 
  show ?thesis
  proof (cases "t = of_int n")
    case True then show ?thesis unfolding rne_def Let_def by simp
  next
    case False
    then have "t < of_int n" using a by simp
    then have "\<lfloor>t\<rfloor> < n" by (simp add: floor_less_iff)
    then show ?thesis unfolding rne_def Let_def by auto
  qed
qed

lemma fl_pos: "0 < q \<Longrightarrow> fl q = of_int (rne (q * 2 powi (52 - expo q))) * 2 powi (expo q - 52)"
  by (simp add: fl_def Let_def)

lemma pow2_cancel: "(2::rat) powi a * 2 powi (- a) = 1" "(2::rat) powi (a - b) * 2 powi (b - a) = 1"
  by (simp_all flip: power_int_add)

lemma fl_sandwich:
  assumes "0 < q" "2 powi e \<le> q" "q < 2 powi (e + 1)"
    and "of_int a * 2 powi (e - 52) \<le> q" "q \<le> of_int b * 2 powi (e - 52)"
  shows "of_int a * 2 powi (e - 52) \<le> fl q \<and> fl q \<le> of_int b * 2 powi (e - 52)"
proof -
  have e: "expo q = e" using assms(1-3) by (rule expo_unique)
  have p: "(0::rat) < 2 powi (52 - e)" "(0::rat) < 2 powi (e - 52)" by simp_all
  have "of_int a * 2 powi (e - 52) * 2 powi (52 - e) \<le> q * 2 powi (52 - e)"
    using assms(4) p(1) by (simp only: mult_le_cancel_right_pos)
  then have "of_int a \<le> q * 2 powi (52 - e)" by (simp add: mult.assoc pow2_cancel)
  then have A: "a \<le> rne (q * 2 powi (52 - e))" by (rule rne_ge)
  have "q * 2 powi (52 - e) \<le> of_int b * 2 powi (e - 52) * 2 powi (52 - e)"
    using assms(5) p(1) by (simp only: mult_le_cancel_right_pos)
  then have "q * 2 powi (52 - e) \<le> of_int b" by (simp add: mult.assoc pow2_cancel)
  then have B: "rne (q * 2 powi (52 - e)) \<le> b" by (rule rne_le)
  have "fl q = of_int (rne (q * 2 powi (52 - e))) * 2 powi (e - 52)"
    using fl_pos[OF assms(1)] e by simp
  moreover have "(of_int a :: rat) \<le> of_int (rne (q * 2 powi (52 - e)))" using A by simp
  moreover have "(of_int (rne (q * 2 powi (52 - e))) :: rat) \<le> of_int b" using B by simp
  ultimately show ?thesis using p(2) by (simp only: mult_le_cancel_right_pos)
qed

lemma fl_error:
  assumes "0 < q" shows "\<bar>fl q - q\<bar> \<le> q * 2 powi (- 53)"
proof -
  define e where "e = expo q"
  define t where "t = q * 2 powi (52 - e)"
  have b: "2 powi e \<le> q" using expo_bounds[OF assms] by (simp add: e_def)
  have q: "q = t * 2 powi (e - 52)" by (simp add: t_def mult.assoc pow2_cancel)
  have f: "fl q = of_int (rne t) * 2 powi (e - 52)"
    using fl_pos[OF assms] by (simp add: e_def t_def)
  have "fl q - q = of_int (rne t) * 2 powi (e - 52) - t * 2 powi (e - 52)"
    unfolding f by (subst q) (rule refl)
  then have "fl q - q = (of_int (rne t) - t) * 2 powi (e - 52)"
    by (simp only: left_diff_distrib)
  then have "\<bar>fl q - q\<bar> = \<bar>of_int (rne t) - t\<bar> * 2 powi (e - 52)"
    by (simp add: abs_mult)
  also have "\<dots> \<le> 1 / 2 * 2 powi (e - 52)"
    using rne_close[of t] by (simp only: mult_le_cancel_right_pos zero_less_power_int zero_less_numeral)
  also have "\<dots> = 2 powi e * 2 powi (- 53)"
    by (simp add: power_int_diff power_int_minus)
  also have "\<dots> \<le> q * 2 powi (- 53)" using b by simp
  finally show ?thesis .
qed

lemma pow2_edge:
  fixes L :: int and k :: nat
  assumes L: "0 < L" and k: "1 \<le> k" "k \<le> 51"
  shows "py_int (fl (of_int L * fl (2 ^ k / of_int L))) \<in> {2 ^ k - 1, 2 ^ k}"
proof -
  define T :: rat where "T = 2 ^ k"
  define x where "x = T / of_int L"
  define y where "y = of_int L * fl x"
  define P :: rat where "P = 2 powi (int k - 53)"
  have Lr: "(0::rat) < of_int L" using L by simp
  have T: "0 < T" by (simp add: T_def)
  have x: "0 < x" using T Lr by (simp add: x_def)
  have Lx: "of_int L * x = T" using Lr by (simp add: x_def)
  have P: "0 < P" "P = T * 2 powi (- 53)" "2 ^ 53 * P = T" 
    by (simp_all add: P_def T_def power_int_diff power_int_minus field_simps)
  have Ple: "2 * P < 1" 
  proof -
    have "(2::rat) powi (int k - 52) < 2 powi 0" using k by (intro power_int_strict_increasing) auto
    moreover have "(2::rat) powi (int k - 52) = 2 * P" by (simp add: P_def power_int_diff)
    ultimately show ?thesis by simp
  qed
  have T2: "2 \<le> T" using k power_increasing[of 1 k "2::rat"] by (simp add: T_def)
  have "y - T = of_int L * (fl x - x)"
    using Lx by (simp add: y_def right_diff_distrib)
  then have "\<bar>y - T\<bar> = of_int L * \<bar>fl x - x\<bar>"
    using Lr by (simp add: abs_mult)
  also have "\<dots> \<le> of_int L * (x * 2 powi (- 53))"
    using fl_error[OF x] Lr by (simp only: mult_le_cancel_left_pos)
  also have "\<dots> = P" using Lx P(2) by (simp flip: mult.assoc)
  finally have yT: "\<bar>y - T\<bar> \<le> P" .
  have ypos: "0 < y" using yT Ple T2 P(1) by linarith
  have R: "T - 1 \<le> fl y \<and> fl y < T + 1"
  proof (cases "y < T")
    case True
    have e1: "2 powi (int k - 1) \<le> y"
    proof -
      have "(2::rat) powi (int k - 1) = T / 2" by (simp add: T_def power_int_diff)
      then show ?thesis using yT Ple T2 by linarith
    qed
    have e2: "y < 2 powi (int k - 1 + 1)" using True by (simp add: T_def)
    have a: "of_int (2 ^ 53 - 1) * 2 powi (int k - 1 - 52) = T - P"
      using P(3) by (simp add: P_def left_diff_distrib)
    have b: "of_int (2 ^ 53) * 2 powi (int k - 1 - 52) = T"
      using P(3) by (simp add: P_def)
    have "of_int (2 ^ 53 - 1) * 2 powi (int k - 1 - 52) \<le> fl y \<and> fl y \<le> of_int (2 ^ 53) * 2 powi (int k - 1 - 52)"
      using ypos e1 e2
    proof (rule fl_sandwich)
      show "of_int (2 ^ 53 - 1) * 2 powi (int k - 1 - 52) \<le> y" unfolding a using yT by linarith
      show "y \<le> of_int (2 ^ 53) * 2 powi (int k - 1 - 52)" unfolding b using True by simp
    qed
    then show ?thesis unfolding a b using Ple P(1) by linarith
  next
    case False
    have e1: "2 powi (int k) \<le> y" using False by (simp add: T_def)
    have e2: "y < 2 powi (int k + 1)"
    proof -
      have "(2::rat) powi (int k + 1) = 2 * T" by (simp add: T_def power_int_add)
      then show ?thesis using yT Ple T2 by linarith
    qed
    have a: "of_int (2 ^ 52) * 2 powi (int k - 52) = T"
      by (simp add: T_def power_int_diff)
    have b: "of_int (2 ^ 52 + 1) * 2 powi (int k - 52) = T + 2 * P"
      by (simp add: T_def P_def power_int_diff field_simps)
    have "of_int (2 ^ 52) * 2 powi (int k - 52) \<le> fl y \<and> fl y \<le> of_int (2 ^ 52 + 1) * 2 powi (int k - 52)"
      using ypos e1 e2
    proof (rule fl_sandwich)
      show "of_int (2 ^ 52) * 2 powi (int k - 52) \<le> y" unfolding a using False by simp
      show "y \<le> of_int (2 ^ 52 + 1) * 2 powi (int k - 52)" unfolding b using yT P(1) by linarith
    qed
    then show ?thesis unfolding a b using Ple P(1) by linarith
  qed
  have Ti: "T = of_int (2 ^ k)" by (simp add: T_def)
  have "0 \<le> fl y" using R T2 by linarith
  then have "py_int (fl y) = \<lfloor>fl y\<rfloor>" by (simp add: py_int_def)
  moreover have "of_int (2 ^ k - 1) \<le> fl y" using R by (simp add: Ti)
  then have "2 ^ k - 1 \<le> \<lfloor>fl y\<rfloor>" by (simp only: le_floor_iff)
  moreover have "fl y < of_int (2 ^ k + 1)" using R by (simp add: Ti)
  then have "\<lfloor>fl y\<rfloor> < 2 ^ k + 1" by (simp only: floor_less_iff)
  ultimately have "py_int (fl y) \<in> {2 ^ k - 1, 2 ^ k}" by auto
  then show ?thesis by (simp add: y_def x_def T_def)
qed

section \<open>Shapes\<close>

lemma shape0_map [simp]: "shape0 (map f a) = shape0 a"
  by (simp add: shape0_def)

lemma shape0_replicate [simp]: "shape0 (replicate n x) = n"
  by (simp add: shape0_def)

lemma shape1_replicate [simp]: "0 < n \<Longrightarrow> shape1 (replicate n r) = length r"
  by (cases n) (simp_all add: shape1_def)

lemma shape2_replicate [simp]:
  "0 < n \<Longrightarrow> 0 < m \<Longrightarrow> shape2 (replicate n (replicate m p)) = length p"
  by (cases n; cases m) (simp_all add: shape2_def)

lemma shape1_map_map [simp]: "shape1 (map (map f) a) = shape1 a"
  by (cases a) (simp_all add: shape1_def)

lemma shape2_map_map_map [simp]: "shape2 (map (map (map f)) a) = shape2 a"
  by (cases a) (simp_all add: shape2_def split: list.splits)

lemma shape0_tabulate2 [simp]: "shape0 (tabulate2 h w f) = h"
  by (simp add: tabulate2_def shape0_def)

lemma shape1_tabulate2 [simp]: "0 < h \<Longrightarrow> shape1 (tabulate2 h w f) = w"
  by (simp add: tabulate2_def shape1_def upt_conv_Cons)

lemma has_shape_tabulate2 [simp]: "has_shape (tabulate2 h w f) h w"
  by (simp add: has_shape_def tabulate2_def list_all_iff)

lemma has_shape_replicate [simp]: "has_shape (replicate h (replicate w x)) h w"
  by (simp add: has_shape_def list_all_iff)

lemma has_shape_map_map [simp]: "has_shape (map (map f) a) h w = has_shape a h w"
  by (simp add: has_shape_def list_all_iff)

lemma composite_length [simp]: "length (composite blend dst pl src msk) = length dst"
  by (simp add: composite_def)

lemma composite_row_length [simp]:
  "i < length dst \<Longrightarrow> length (composite blend dst pl src msk ! i) = length (dst ! i)"
  by (simp add: composite_def)

lemma composite_nth:
  "i < length dst \<Longrightarrow> j < length (dst ! i) \<Longrightarrow>
   composite blend dst pl src msk ! i ! j =
     (if in_footprint pl src msk i j
      then blend (msk ! nat (int i - fst pl) ! nat (int j - snd pl))
                 (src ! nat (int i - fst pl) ! nat (int j - snd pl)) (dst ! i ! j)
      else dst ! i ! j)"
  by (simp add: composite_def Let_def)

lemma blend_pixel_length [simp]: "length (blend_pixel m s d) = length d"
  by (simp add: blend_pixel_def)

lemma blend_pixel_nth:
  "c < length d \<Longrightarrow> blend_pixel m s d ! c = m * s ! c + (1 - m) * d ! c"
  by (simp add: blend_pixel_def blend_value_def)

lemma blend_pixel_zero [simp]: "blend_pixel 0 s d = d"
  by (rule nth_equalityI) (simp_all add: blend_pixel_nth)

lemma shape0_composite [simp]: "shape0 (composite blend dst pl src msk) = shape0 dst"
  by (simp add: shape0_def)

lemma shape1_nth: "shape1 a = (if length a = 0 then 0 else length (a ! 0))"
  by (cases a) (simp_all add: shape1_def)

lemma shape2_nth:
  "shape2 a = (if length a = 0 then 0 else if length (a ! 0) = 0 then 0
               else length (a ! 0 ! 0))"
  by (cases a) (simp_all add: shape2_def split: list.splits)

lemma shape1_composite [simp]: "shape1 (composite blend dst pl src msk) = shape1 dst"
  by (simp add: shape1_nth)

lemma has_shape_composite [simp]:
  "has_shape (composite blend dst pl src msk) h w = has_shape dst h w"
  by (auto simp: has_shape_def list_all_length)

lemma shape2_composite_crop [simp]:
  "shape2 (composite_crop dst pl src msk) = shape2 dst"
  by (simp add: shape2_nth composite_crop_def composite_nth)

section \<open>When the steps succeed\<close>

lemma Inr_projr: "\<not> isl x \<Longrightarrow> x = Inr (projr x)"
  by (cases x) simp_all

lemma isl_np_binop:
  "isl (np_binop f a b) \<longleftrightarrow> bdim (shape0 a) (shape0 b) = None
     \<or> bdim (shape1 a) (shape1 b) = None \<or> bdim (shape2 a) (shape2 b) = None"
  by (auto simp: np_binop_def split: option.splits)

lemma isl_set_slice2:
  "isl (set_slice2 cast shp dst r0 r1 c0 c1 src_shp src) \<longleftrightarrow>
     \<not> (broadcastable (fst src_shp) (snd (slice_bounds (fst shp) r0 r1))
        \<and> broadcastable (snd src_shp) (snd (slice_bounds (snd shp) c0 c1)))"
  by (auto simp: set_slice2_def Let_def split: prod.splits)

section \<open>The run on small inputs\<close>

lemma run_full_pipeline_InrD:
  assumes "run_full_pipeline ext bg fg pos rel mes = Inr out"
  shows "load_and_resize ext bg fg mes = Inr (loaded_of out)"
    and "estimates_of out = estimate ext (loaded_of out)"
    and "rescaled_of out = rescale_fg ext (loaded_of out) (estimates_of out) pos rel"
    and "fg_full_buffers (loaded_of out) (rescaled_of out) = Inr (full_of out)"
    and "composites_of out = get_composites (loaded_of out) (estimates_of out) (rescaled_of out)"
    and "harmonize ext (full_of out) (composites_of out) = Inr (harmonized_of out)"
    and "light_coeffs ext (loaded_of out) (estimates_of out) = Inr (lighting_of out)"
  using assms by (auto simp: run_full_pipeline_def Let_def split: sum.splits)

lemma first_pixel_replicate [simp]:
  "0 < n \<Longrightarrow> 0 < m \<Longrightarrow> first_pixel d (replicate n (replicate m p)) = p"
  by (cases n; cases m) (simp_all add: first_pixel_def)

lemma example_bg_facts:
  "shape0 example_bg = 2" "shape1 example_bg = 2" "first_pixel [] example_bg = [1, 1, 1]"
  by (simp_all add: example_bg_def shape0_def shape1_def first_pixel_def)

lemma example_chan: "chan 3 example_fg = Inr [[1, 1, 1], [1, 1, 1], [1, 1, 1]]"
  by code_simp

lemma example_bbox: "get_bbox [[1, 1, 1], [1, 1, 1], [1, 1, 1]] = Inr (0, 2, 0, 2)"
  by code_simp

lemma example_crops:
  "crop2 0 2 0 2 (chans_upto 3 example_fg) = [[[0, 0, 0], [0, 0, 0]], [[0, 0, 0], [0, 0, 0]]]"
  "crop2 0 2 0 2 [[1, 1, 1], [1, 1, 1], [1, 1, 1]] = [[1, 1], [1, 1::real]]"
  by code_simp+

lemma example_crop_facts:
  "shape0 [[[0, 0, 0], [0, 0, 0]], [[0, 0, 0], [0, 0, 0::real]]] = 2"
  "shape1 [[[0, 0, 0], [0, 0, 0]], [[0, 0, 0], [0, 0, 0::real]]] = 2"
  "first_pixel [] [[[0, 0, 0], [0, 0, 0]], [[0, 0, 0], [0, 0, 0::real]]] = [0, 0, 0]"
  "first_pixel 0 [[1, 1], [1, 1::real]] = 1"
  by (simp_all add: shape0_def shape1_def first_pixel_def)

lemma example_floats:
  "py_truediv 2 2 = Inr 1" "py_truediv MAX_EDGE_SIZE 2 = Inr 512"
  "py_int (py_mul 2 1) = 2" "py_int (py_mul 2 512) = 1024"
  "py_int (py_mul 1024 (1 / 1024)) = 1" "py_int (py_mul (1 / 2) 2) = 1"
  "py_truediv 512 2 = Inr 256" "py_int (py_mul 2 256) = 512"
  by code_simp+

lemma example_fg_facts:
  "shape0 (chans_upto 3 example_fg) = 3" "shape1 (chans_upto 3 example_fg) = 3"
  "slice_bounds 3 0 2 = (0, 2)"
  by code_simp+

lemma load_example:
  "load_and_resize stub_externals example_bg example_fg 2 = Inr example_loaded"
  by (simp add: load_and_resize_def Let_def example_chan example_bbox example_crops
        example_floats example_bg_facts example_fg_facts example_crop_facts
        stub_externals_def example_loaded_def)

lemma estimate_example: "estimate stub_externals example_loaded = example_estimates"
  by (simp add: estimate_def example_loaded_def example_estimates_def stub_externals_def
        np_pow_def add_chan_def Let_def)

lemma rescale_example:
  "rescale_fg stub_externals example_loaded example_estimates (1 / 2, 1 / 2) (1 / 1024)
   = example_rescaled"
  by (simp add: rescale_fg_def example_loaded_def example_estimates_def example_rescaled_def
        stub_externals_def Let_def example_floats)

lemma example_full:
  "np_zeros 2 2 = Inr [[0, 0], [0, 0]]"
  "patch_shape [[1::real]] (1, 1) = (1, 1)"
  "set_slice2 float32 (2, 2) [[0, 0], [0, 0]] 1 2 1 2 (Suc 0, Suc 0) [[1]]
     = Inr [[0, 0], [0, 1]]"
  by code_simp+

lemma example_composites:
  "composite_crop (replicate 2 (replicate 2 [1, 1, 1])) (1, 1) [[[0, 0, 0]]] [[1]]
     = [[[1, 1, 1], [1, 1, 1]], [[1, 1, 1], [0, 0, 0]]]"
  "composite_depth (replicate 2 (replicate 2 1)) (1, 1) [[1]] [[1]] = [[1, 1], [1, 1]]"
  "composite_crop (replicate 2 (replicate 2 [1 / 2])) (1, 1) [[[1 / 2]]] [[1]]
     = [[[1 / 2], [1 / 2]], [[1 / 2], [1 / 2]]]"
  "composite_crop (replicate 2 (replicate 2 [0, 0, 1])) (1, 1) [[[0, 0, 1]]] [[1]]
     = [[[0, 0, 1], [0, 0, 1]], [[0, 0, 1], [0, 0, 1]]]"
  by code_simp+

lemma example_binops:
  "np_binop (\<lambda>x y. x / y) [[[1, 1, 1], [1, 1, 1]], [[1, 1, 1], [0, 0, 0]]]
      [[[2], [2]], [[2], [2]]]
     = Inr [[[1 / 2, 1 / 2, 1 / 2], [1 / 2, 1 / 2, 1 / 2]], [[1 / 2, 1 / 2, 1 / 2], [0, 0, 0]]]"
  "np_binop (\<lambda>x y. x * y) [[[1, 1, 1], [1, 1, 1]], [[1, 1, 1], [0, 0, 0]]]
      [[[2], [2]], [[2], [2]]]
     = Inr [[[2, 2, 2], [2, 2, 2]], [[2, 2, 2], [0, 0, 0]]]"
  by code_simp+

lemma full_example: "fg_full_buffers example_loaded example_rescaled = Inr example_full"
  by (simp add: fg_full_buffers_def Let_def example_loaded_def example_rescaled_def
        example_full_def example_full add_chan_def)

lemma composites_example:
  "get_composites example_loaded example_estimates example_rescaled = example_composites"
  by (simp add: get_composites_def example_loaded_def example_estimates_def
        example_rescaled_def example_composites_def example_composites)

lemma harmonize_example:
  "harmonize stub_externals example_full example_composites = Inr example_harmonized"
  by (simp add: harmonize_def example_full_def example_composites_def example_harmonized_def
        stub_externals_def np_pow_def example_binops)

lemma light_example:
  "light_coeffs stub_externals example_loaded example_estimates = Inr example_lighting"
  by (simp add: light_coeffs_def example_loaded_def example_estimates_def
        example_lighting_def stub_externals_def example_floats chan_def Let_def)

lemma example_run_ok:
  "run_full_pipeline stub_externals example_bg example_fg (1 / 2, 1 / 2) (1 / 1024) 2
   = Inr example_run"
  by (simp add: run_full_pipeline_def load_example estimate_example rescale_example
        full_example composites_example harmonize_example light_example Let_def
        example_run_def)
     (simp add: stub_externals_def example_harmonized_def)

section \<open>The sizes of the resized images\<close>

lemma load_and_resize_sizes:
  assumes "load_and_resize ext bg fg mes = Inr ld"
  shows "py_truediv mes (int (max (shape0 bg) (shape1 bg))) \<noteq> Inl ZeroDivisionError"
    and "bg_height ld = py_int (py_mul (of_nat (shape0 bg)) (projr (py_truediv mes (int (max (shape0 bg) (shape1 bg))))))"
    and "bg_width ld = py_int (py_mul (of_nat (shape1 bg)) (projr (py_truediv mes (int (max (shape0 bg) (shape1 bg))))))"
    and "bg_im ld = resize3 ext bg (bg_height ld, bg_width ld) None"
    and "0 < max (fst (crop_shape ld)) (snd (crop_shape ld))"
    and "fg_scale ld = fl (of_int MAX_EDGE_SIZE / of_nat (max (fst (crop_shape ld)) (snd (crop_shape ld))))"
    and "cropped_height ld = py_int (py_mul (of_nat (fst (crop_shape ld))) (fg_scale ld))"
    and "cropped_width ld = py_int (py_mul (of_nat (snd (crop_shape ld))) (fg_scale ld))"
  using assms
  by (auto simp: load_and_resize_def Let_def py_truediv_def split: sum.splits prod.splits if_splits)

lemma load_and_resize_crop_independent:
  assumes "load_and_resize ext bg fg mes = Inr ld" "load_and_resize ext bg fg mes' = Inr ld'"
  shows "crop_shape ld' = crop_shape ld" "fg_scale ld' = fg_scale ld"
    "cropped_height ld' = cropped_height ld" "cropped_width ld' = cropped_width ld"
    "fg_im_crop ld' = fg_im_crop ld" "fg_mask_crop ld' = fg_mask_crop ld"
  using assms
  by (auto simp: load_and_resize_def Let_def split: sum.splits prod.splits)

lemma longer_edge_1024:
  assumes "0 < L"
  shows "py_int (py_mul (of_nat L) (fl (of_int MAX_EDGE_SIZE / of_nat L))) \<in> {1023, 1024}"
  using pow2_edge[of "int L" 10] assms by (simp add: py_mul_def MAX_EDGE_SIZE_def)

lemma shape_np_pow [simp]:
  "shape0 (np_pow a g) = shape0 a" "shape1 (np_pow a g) = shape1 a"
  "shape2 (np_pow a g) = shape2 a"
  by (simp_all add: np_pow_def)

lemma shape1_add_chan [simp]: "shape1 (add_chan a) = shape1 a"
  by (simp add: add_chan_def)

lemma shape0_add_chan [simp]: "shape0 (add_chan a) = shape0 a"
  by (simp add: add_chan_def)

lemma not_isl_Inl: "x = Inl e \<Longrightarrow> \<not> isl x \<Longrightarrow> False"
  by simp

lemma stub_run_succeeds:
  assumes ld: "load_and_resize stub_externals bg fg mes = Inr ld"
    and pos: "0 < bg_height ld" "0 < bg_width ld" "length (first_pixel [] bg) = 3"
    and rs: "rescale_fg stub_externals ld (estimate stub_externals ld) pos rel = rs"
    and one: "fg_scaled_height rs = 1" "fg_scaled_width rs = 1"
    and f: "py_truediv 512 (max (bg_height ld) (bg_width ld)) = Inr f"
      "0 < py_int (py_mul (of_int (bg_height ld)) f)"
      "0 < py_int (py_mul (of_int (bg_width ld)) f)"
  shows "\<not> isl (run_full_pipeline stub_externals bg fg pos rel mes)"
proof -
  define es where "es = estimate stub_externals ld"
  have bg: "bg_im ld = replicate (nat (bg_height ld)) (replicate (nat (bg_width ld)) (first_pixel [] bg))"
    using load_and_resize_sizes(4)[OF ld] by (simp add: stub_externals_def)
  have inv: "im_inv_shading es = replicate (nat (bg_height ld)) (replicate (nat (bg_width ld)) [1 / 2])"
    by (simp add: es_def estimate_def Let_def stub_externals_def bg np_pow_def add_chan_def)
  have nrm: "im_normals es = replicate (nat (bg_height ld)) (replicate (nat (bg_width ld)) [0, 0, 1])"
    by (simp add: es_def estimate_def Let_def stub_externals_def bg)
  have m: "fg_mask_rescaled rs = [[first_pixel 0 (fg_mask_crop ld)]]"
    "fg_depth_rescaled rs = [[first_pixel 0 (fg_im_depth es)]]"
    using one rs[symmetric] by (simp_all add: rescale_fg_def Let_def stub_externals_def es_def)
  have z: "np_zeros (bg_height ld) (bg_width ld)
     = Inr (tabulate2 (nat (bg_height ld)) (nat (bg_width ld)) (\<lambda>i j. 0))"
    using pos by (simp add: np_zeros_def)
  have s1: "\<not> isl (set_slice2 float32 (nat (bg_height ld), nat (bg_width ld))
      (tabulate2 (nat (bg_height ld)) (nat (bg_width ld)) (\<lambda>i j. 0))
      (top rs) (top rs + 1) (left rs) (left rs + 1) (patch_shape [[x]] (1, 1)) [[x]])" for x
    by (simp add: isl_set_slice2 broadcastable_def patch_shape_def shape0_def shape1_def)
  have fb: "\<not> isl (fg_full_buffers ld rs)"
    using s1[of "first_pixel 0 (fg_mask_crop ld)"] s1[of "first_pixel 0 (fg_im_depth es)"]
    by (auto simp: fg_full_buffers_def Let_def z m one split: sum.splits)
  define cs where "cs = get_composites ld es rs"
  have c: "shape0 (comp cs) = nat (bg_height ld)" "shape1 (comp cs) = nat (bg_width ld)"
    "shape2 (comp cs) = 3"
    using pos by (simp_all add: cs_def get_composites_def bg composite_crop_def[symmetric])
      (simp_all add: composite_crop_def)
  have i: "shape0 (comp_inv_shading cs) = nat (bg_height ld)"
    "shape1 (comp_inv_shading cs) = nat (bg_width ld)" "shape2 (comp_inv_shading cs) = 1"
    using pos by (simp_all add: cs_def get_composites_def inv)
      (simp_all add: composite_crop_def)
  have nb: "\<not> isl (np_binop f' (np_pow (comp cs) g) (map (map (map u)) (comp_inv_shading cs)))"
    for f' g u by (simp add: isl_np_binop c i bdim_def)
  have hm: "\<not> isl (harmonize stub_externals (projr (fg_full_buffers ld rs)) cs)"
    using nb by (auto simp: harmonize_def Let_def stub_externals_def split: sum.splits
        dest: not_isl_Inl)
  have lt: "\<not> isl (light_coeffs stub_externals ld es)"
    using f pos by (simp add: light_coeffs_def Let_def stub_externals_def inv chan_def)
  show ?thesis
    using fb hm lt
    by (auto simp: run_full_pipeline_def ld Let_def rs es_def cs_def split: sum.splits)
qed

section \<open>The compositor\<close>

lemma in_footprint_mask:
  "in_footprint pl src msk i j \<Longrightarrow>
   msk ! nat (int i - fst pl) ! nat (int j - snd pl) \<in> set (msk ! nat (int i - fst pl))
   \<and> msk ! nat (int i - fst pl) \<in> set msk"
  by (simp add: in_footprint_def Let_def)

lemma composite_zero_mask:
  assumes "\<forall>r\<in>set msk. \<forall>m\<in>set r. m = 0"
  shows "composite blend_pixel dst pl src msk = dst"
proof (rule nth_equalityI)
  show "length (composite blend_pixel dst pl src msk) = length dst" by simp
next
  fix i assume "i < length (composite blend_pixel dst pl src msk)"
  then have i: "i < length dst" by simp
  show "composite blend_pixel dst pl src msk ! i = dst ! i"
  proof (rule nth_equalityI)
    show "length (composite blend_pixel dst pl src msk ! i) = length (dst ! i)" using i by simp
  next
    fix j assume "j < length (composite blend_pixel dst pl src msk ! i)"
    then have j: "j < length (dst ! i)" using i by simp
    show "composite blend_pixel dst pl src msk ! i ! j = dst ! i ! j"
    proof (cases "in_footprint pl src msk i j")
      case True
      from in_footprint_mask[OF True] assms
      have "msk ! nat (int i - fst pl) ! nat (int j - snd pl) = 0" by blast
      then show ?thesis using i j True by (simp add: composite_nth)
    next
      case False
      then show ?thesis using i j by (simp add: composite_nth)
    qed
  qed
qed

text \<open>
  C1. The compositor returns a new buffer that, in every channel, is
  \<open>mask\<cdot>src + (1 - mask)\<cdot>dst\<close> at every pixel inside the footprint of the placed patch
  and the destination's value at every pixel outside it. A mask that is zero everywhere
  gives back the destination. A fully opaque 4 by 4 patch of constant 1 placed at offset
  (2, 2) on an 8 by 8 background of zeros gives 1 in rows and columns 2 to 5 and 0
  elsewhere.
\<close>

theorem composite_crop_blend:
  "(\<forall>i j c. i < length dst \<longrightarrow> j < length (dst ! i) \<longrightarrow> c < length (dst ! i ! j) \<longrightarrow>
      composite_crop dst (t, l) src msk ! i ! j ! c =
        (if in_footprint (t, l) src msk i j
         then msk ! nat (int i - t) ! nat (int j - l) * src ! nat (int i - t) ! nat (int j - l) ! c
              + (1 - msk ! nat (int i - t) ! nat (int j - l)) * dst ! i ! j ! c
         else dst ! i ! j ! c))
   \<and> ((\<forall>r\<in>set msk. \<forall>m\<in>set r. m = 0) \<longrightarrow> composite_crop dst (t, l) src msk = dst)
   \<and> composite_crop (tabulate2 8 8 (\<lambda>i j. [0])) (2, 2) (tabulate2 4 4 (\<lambda>i j. [1]))
         (tabulate2 4 4 (\<lambda>i j. 1))
       = tabulate2 8 8 (\<lambda>i j. if 2 \<le> i \<and> i \<le> 5 \<and> 2 \<le> j \<and> j \<le> 5 then [1] else [0])"
proof (intro conjI allI impI)
  fix i j c
  assume "i < length dst" "j < length (dst ! i)" "c < length (dst ! i ! j)"
  then show "composite_crop dst (t, l) src msk ! i ! j ! c =
        (if in_footprint (t, l) src msk i j
         then msk ! nat (int i - t) ! nat (int j - l) * src ! nat (int i - t) ! nat (int j - l) ! c
              + (1 - msk ! nat (int i - t) ! nat (int j - l)) * dst ! i ! j ! c
         else dst ! i ! j ! c)"
    by (simp add: composite_crop_def composite_nth blend_pixel_nth)
next
  assume "\<forall>r\<in>set msk. \<forall>m\<in>set r. m = 0"
  then show "composite_crop dst (t, l) src msk = dst"
    unfolding composite_crop_def by (rule composite_zero_mask)
next
  show "composite_crop (tabulate2 8 8 (\<lambda>i j. [0])) (2, 2) (tabulate2 4 4 (\<lambda>i j. [1]))
         (tabulate2 4 4 (\<lambda>i j. 1))
       = tabulate2 8 8 (\<lambda>i j. if 2 \<le> i \<and> i \<le> 5 \<and> 2 \<le> j \<and> j \<le> 5 then [1] else [0])"
    by code_simp
qed

theorem composite_crop_blend_witness:
  "composite_crop [[[4]]] (0, 0) [[[8]]] [[1 / 2]] ! 0 ! 0 ! 0 = 6
   \<and> composite_crop [[[4]]] (0, 0) [[[8]]] [[0]] = [[[4]]]"
  using composite_crop_blend [of "[[[4]]]" 0 0 "[[[8]]]" "[[1 / 2]]"]
        composite_crop_blend [of "[[[4]]]" 0 0 "[[[8]]]" "[[0]]"]
  by (simp add: in_footprint_def)

section \<open>One placement for every composite\<close>

text \<open>
  C2. The four composites of a run (colour, depth, inverse shading, normals) are built
  with one placement offset \<open>(top, left)\<close> and one rescaled foreground mask, and, the
  estimators returning buffers of the size of the background canvas, each composite has
  the spatial dimensions \<open>(bg_height, bg_width)\<close> of that canvas.
\<close>

theorem composites_share_placement:
  assumes "run_full_pipeline ext bg fg pos rel max_edge_size = Inr out"
    and "has_shape (bg_im (loaded_of out))
           (nat (bg_height (loaded_of out))) (nat (bg_width (loaded_of out)))"
    and "has_shape (im_depth (estimates_of out))
           (nat (bg_height (loaded_of out))) (nat (bg_width (loaded_of out)))"
    and "has_shape (im_inv_shading (estimates_of out))
           (nat (bg_height (loaded_of out))) (nat (bg_width (loaded_of out)))"
    and "has_shape (im_normals (estimates_of out))
           (nat (bg_height (loaded_of out))) (nat (bg_width (loaded_of out)))"
  shows "comp (composites_of out) =
           composite_crop (bg_im (loaded_of out))
             (top (rescaled_of out), left (rescaled_of out))
             (fg_im_rescaled (rescaled_of out)) (fg_mask_rescaled (rescaled_of out))
     \<and> comp_depth (composites_of out) =
           composite_depth (im_depth (estimates_of out))
             (top (rescaled_of out), left (rescaled_of out))
             (fg_depth_rescaled (rescaled_of out)) (fg_mask_rescaled (rescaled_of out))
     \<and> comp_inv_shading (composites_of out) =
           composite_crop (im_inv_shading (estimates_of out))
             (top (rescaled_of out), left (rescaled_of out))
             (fg_inv_shading_rescaled (rescaled_of out)) (fg_mask_rescaled (rescaled_of out))
     \<and> comp_normals (composites_of out) =
           composite_crop (im_normals (estimates_of out))
             (top (rescaled_of out), left (rescaled_of out))
             (fg_normals_rescaled (rescaled_of out)) (fg_mask_rescaled (rescaled_of out))
     \<and> top (rescaled_of out) = py_int (fl (fst pos * of_int (bg_height (loaded_of out))))
     \<and> left (rescaled_of out) = py_int (fl (snd pos * of_int (bg_width (loaded_of out))))
     \<and> fg_mask_rescaled (rescaled_of out) =
           resize2 ext (fg_mask_crop (loaded_of out))
             (fg_scaled_height (rescaled_of out), fg_scaled_width (rescaled_of out)) (Some True)
     \<and> has_shape (comp (composites_of out))
           (nat (bg_height (loaded_of out))) (nat (bg_width (loaded_of out)))
     \<and> has_shape (comp_depth (composites_of out))
           (nat (bg_height (loaded_of out))) (nat (bg_width (loaded_of out)))
     \<and> has_shape (comp_inv_shading (composites_of out))
           (nat (bg_height (loaded_of out))) (nat (bg_width (loaded_of out)))
     \<and> has_shape (comp_normals (composites_of out))
           (nat (bg_height (loaded_of out))) (nat (bg_width (loaded_of out)))"
proof -
  note r = run_full_pipeline_InrD[OF assms(1)]
  show ?thesis
    unfolding r(5) unfolding r(3)
    using assms(2-5)
    by (simp add: get_composites_def rescale_fg_def Let_def composite_crop_def
          composite_depth_def py_mul_def)
qed

theorem composites_share_placement_witness:
  "top (rescaled_of example_run) = 1 \<and> left (rescaled_of example_run) = 1
   \<and> has_shape (comp (composites_of example_run)) 2 2
   \<and> has_shape (comp_depth (composites_of example_run)) 2 2
   \<and> has_shape (comp_inv_shading (composites_of example_run)) 2 2
   \<and> has_shape (comp_normals (composites_of example_run)) 2 2"
proof -
  have "has_shape (bg_im (loaded_of example_run))
           (nat (bg_height (loaded_of example_run))) (nat (bg_width (loaded_of example_run)))"
    "has_shape (im_depth (estimates_of example_run))
           (nat (bg_height (loaded_of example_run))) (nat (bg_width (loaded_of example_run)))"
    "has_shape (im_inv_shading (estimates_of example_run))
           (nat (bg_height (loaded_of example_run))) (nat (bg_width (loaded_of example_run)))"
    "has_shape (im_normals (estimates_of example_run))
           (nat (bg_height (loaded_of example_run))) (nat (bg_width (loaded_of example_run)))"
    by (simp_all add: example_run_def example_loaded_def example_estimates_def)
  note t = composites_share_placement [OF example_run_ok this]
  have d: "nat (bg_height (loaded_of example_run)) = 2"
    "nat (bg_width (loaded_of example_run)) = 2"
    "top (rescaled_of example_run) = 1" "left (rescaled_of example_run) = 1"
    by (simp_all add: example_run_def example_loaded_def example_rescaled_def)
  from t show ?thesis unfolding d by blast
qed

section \<open>The depth composite\<close>

lemma in_footprint_add_chan [simp]:
  "in_footprint pl (add_chan src) msk i j = in_footprint pl src msk i j"
  by (auto simp: in_footprint_def add_chan_def Let_def)

lemma blend_pixel_single: "blend_pixel m [s] [d] = [blend_value m s d]"
  by (simp add: blend_pixel_def)

lemma add_chan_composite:
  "add_chan (composite blend_value dst pl src msk)
   = composite blend_pixel (add_chan dst) pl (add_chan src) msk"
proof (rule nth_equalityI)
  show "length (add_chan (composite blend_value dst pl src msk))
        = length (composite blend_pixel (add_chan dst) pl (add_chan src) msk)"
    by (simp add: add_chan_def)
next
  fix i assume "i < length (add_chan (composite blend_value dst pl src msk))"
  then have i: "i < length dst" by (simp add: add_chan_def)
  show "add_chan (composite blend_value dst pl src msk) ! i
        = composite blend_pixel (add_chan dst) pl (add_chan src) msk ! i"
  proof (rule nth_equalityI)
    show "length (add_chan (composite blend_value dst pl src msk) ! i)
          = length (composite blend_pixel (add_chan dst) pl (add_chan src) msk ! i)"
      using i by (simp add: add_chan_def)
  next
    fix j assume "j < length (add_chan (composite blend_value dst pl src msk) ! i)"
    then have j: "j < length (dst ! i)" using i by (simp add: add_chan_def)
    have "in_footprint pl src msk i j \<Longrightarrow>
          add_chan src ! nat (int i - fst pl) ! nat (int j - snd pl)
          = [src ! nat (int i - fst pl) ! nat (int j - snd pl)]"
      by (simp add: in_footprint_def Let_def add_chan_def)
    moreover have "add_chan dst ! i ! j = [dst ! i ! j]" using i j by (simp add: add_chan_def)
    moreover have "add_chan (composite blend_value dst pl src msk) ! i ! j
          = [composite blend_value dst pl src msk ! i ! j]" using i j by (simp add: add_chan_def)
    moreover have "i < length (add_chan dst)" "j < length (add_chan dst ! i)"
      using i j by (simp_all add: add_chan_def)
    ultimately show "add_chan (composite blend_value dst pl src msk) ! i ! j
          = composite blend_pixel (add_chan dst) pl (add_chan src) msk ! i ! j"
      using i j by (simp add: composite_nth blend_pixel_single)
  qed
qed

text \<open>
  C3. Depth is composited as every other buffer is: inside the footprint the foreground
  depth is blended over the background depth with the weight of the mask and nothing
  else, no ordering of depths and no adjustment of values, so that the composite depth is
  the generic composite of the two depth buffers.
\<close>

theorem composite_depth_blend:
  "(\<forall>i j. i < length dst \<longrightarrow> j < length (dst ! i) \<longrightarrow>
      composite_depth dst (t, l) src msk ! i ! j =
        (if in_footprint (t, l) src msk i j
         then msk ! nat (int i - t) ! nat (int j - l) * src ! nat (int i - t) ! nat (int j - l)
              + (1 - msk ! nat (int i - t) ! nat (int j - l)) * dst ! i ! j
         else dst ! i ! j))
   \<and> add_chan (composite_depth dst (t, l) src msk)
       = composite_crop (add_chan dst) (t, l) (add_chan src) msk"
  by (simp add: composite_depth_def composite_crop_def composite_nth blend_value_def
        add_chan_composite)

theorem composite_depth_blend_witness:
  "composite_depth [[4]] (0, 0) [[8]] [[1 / 2]] ! 0 ! 0 = 6
   \<and> composite_depth [[3, 4]] (0, 1) [[8]] [[1]] = [[3, 8]]"
  using composite_depth_blend [of "[[4]]" 0 0 "[[8]]" "[[1 / 2]]"]
        composite_depth_blend [of "[[3, 4]]" 0 1 "[[8]]" "[[1]]"]
  by (simp add: in_footprint_def composite_depth_def composite_def blend_value_def)

section \<open>The bounding box\<close>

lemma sorted_hd_le: "sorted xs \<Longrightarrow> x \<in> set xs \<Longrightarrow> hd xs \<le> (x::nat)"
  by (cases xs) auto

lemma sorted_le_last: "sorted xs \<Longrightarrow> x \<in> set xs \<Longrightarrow> (x::nat) \<le> last xs"
  by (induction xs) (auto split: if_splits)

lemma filter_upt_bounds:
  assumes "xs = filter P [0..<n]" "xs \<noteq> []"
  shows "hd xs < n \<and> P (hd xs) \<and> last xs < n \<and> P (last xs) \<and> hd xs \<le> last xs
         \<and> (\<forall>i<n. P i \<longrightarrow> hd xs \<le> i \<and> i \<le> last xs)"
proof -
  have s: "sorted xs" unfolding assms(1) by (rule sorted_filter[where f = "\<lambda>x. x", simplified]) simp
  have m: "set xs = {i. i < n \<and> P i}" unfolding assms(1) by auto
  have "hd xs \<in> set xs" "last xs \<in> set xs" using assms(2) by simp_all
  then show ?thesis using m s sorted_hd_le[OF s] sorted_le_last[OF s] by auto
qed

lemma has_shape_row: "has_shape a h w \<Longrightarrow> i < h \<Longrightarrow> length (a ! i) = w"
  by (simp add: has_shape_def list_all_length)

lemma has_shape_shape1: "has_shape a h w \<Longrightarrow> 0 < h \<Longrightarrow> shape1 a = w"
  by (cases a) (simp_all add: has_shape_def shape1_def)

lemma row_has_nonzero:
  assumes "has_shape a h w" "i < h"
  shows "list_ex (\<lambda>x. x \<noteq> 0) (a ! i) \<longleftrightarrow> (\<exists>j<w. a ! i ! j \<noteq> (0::real))"
  using has_shape_row[OF assms] by (simp add: list_ex_length)

lemma col_has_nonzero:
  assumes "has_shape a h w" "j < w"
  shows "list_ex (\<lambda>r. j < length r \<and> r ! j \<noteq> 0) a \<longleftrightarrow> (\<exists>i<h. a ! i ! j \<noteq> (0::real))"
proof -
  have l: "length a = h" using assms(1) by (simp add: has_shape_def)
  show ?thesis using has_shape_row[OF assms(1)] assms(2) l
    by (auto simp: list_ex_length)
qed

lemma get_bbox_zero:
  assumes "has_shape fg_mask h w" "\<forall>i<h. \<forall>j<w. fg_mask ! i ! j = 0"
  shows "get_bbox fg_mask = Inl DegenerateMask"
proof -
  have l: "length fg_mask = h" using assms(1) by (simp add: has_shape_def)
  have "filter (\<lambda>i. list_ex (\<lambda>x. x \<noteq> 0) (fg_mask ! i)) [0..<shape0 fg_mask] = []"
    using assms(2) row_has_nonzero[OF assms(1)] by (simp add: shape0_def l filter_empty_conv)
  then show ?thesis by (simp add: get_bbox_def)
qed

lemma get_bbox_nonzero:
  assumes sh: "has_shape fg_mask h w" and nz: "i0 < h" "j0 < w" "fg_mask ! i0 ! j0 \<noteq> 0"
  shows "\<exists>r0 r1 c0 c1. get_bbox fg_mask = Inr (r0, r1, c0, c1)
     \<and> r0 \<le> r1 \<and> r1 < h \<and> c0 \<le> c1 \<and> c1 < w
     \<and> (\<forall>i<h. \<forall>j<w. fg_mask ! i ! j \<noteq> 0 \<longrightarrow> r0 \<le> i \<and> i \<le> r1 \<and> c0 \<le> j \<and> j \<le> c1)
     \<and> (\<exists>j<w. fg_mask ! r0 ! j \<noteq> 0) \<and> (\<exists>j<w. fg_mask ! r1 ! j \<noteq> 0)
     \<and> (\<exists>i<h. fg_mask ! i ! c0 \<noteq> 0) \<and> (\<exists>i<h. fg_mask ! i ! c1 \<noteq> 0)"
proof -
  define P where "P = (\<lambda>i. list_ex (\<lambda>x. x \<noteq> 0) (fg_mask ! i))"
  define Q where "Q = (\<lambda>j. list_ex (\<lambda>r. j < length r \<and> r ! j \<noteq> 0) fg_mask)"
  define rows where "rows = filter P [0..<h]"
  define cols where "cols = filter Q [0..<w]"
  have l: "shape0 fg_mask = h" using sh by (simp add: has_shape_def shape0_def)
  have w: "shape1 fg_mask = w" using has_shape_shape1[OF sh] nz(1) by simp
  have P: "\<And>i. i < h \<Longrightarrow> P i \<longleftrightarrow> (\<exists>j<w. fg_mask ! i ! j \<noteq> 0)"
    unfolding P_def using row_has_nonzero[OF sh] by simp
  have Q: "\<And>j. j < w \<Longrightarrow> Q j \<longleftrightarrow> (\<exists>i<h. fg_mask ! i ! j \<noteq> 0)"
    unfolding Q_def using col_has_nonzero[OF sh] by simp
  have "i0 \<in> set rows" using nz P by (auto simp: rows_def)
  then have rne: "rows \<noteq> []" by auto
  have "j0 \<in> set cols" using nz Q by (auto simp: cols_def)
  then have cne: "cols \<noteq> []" by auto
  note R = filter_upt_bounds[OF rows_def rne]
  note C = filter_upt_bounds[OF cols_def cne]
  have g: "get_bbox fg_mask = Inr (hd rows, last rows, hd cols, last cols)"
    using rne cne by (simp add: get_bbox_def l w rows_def cols_def P_def Q_def Let_def)
  have cover: "\<forall>i<h. \<forall>j<w. fg_mask ! i ! j \<noteq> 0 \<longrightarrow>
      hd rows \<le> i \<and> i \<le> last rows \<and> hd cols \<le> j \<and> j \<le> last cols"
  proof (intro allI impI)
    fix i j assume a: "i < h" "j < w" "fg_mask ! i ! j \<noteq> 0"
    then have "P i" "Q j" using P Q by auto
    then show "hd rows \<le> i \<and> i \<le> last rows \<and> hd cols \<le> j \<and> j \<le> last cols"
      using R C a by blast
  qed
  have "\<exists>j<w. fg_mask ! hd rows ! j \<noteq> 0" using R P by blast
  moreover have "\<exists>j<w. fg_mask ! last rows ! j \<noteq> 0" using R P by blast
  moreover have "\<exists>i<h. fg_mask ! i ! hd cols \<noteq> 0" using C Q by blast
  moreover have "\<exists>i<h. fg_mask ! i ! last cols \<noteq> 0" using C Q by blast
  ultimately show ?thesis using g cover R C by blast
qed

lemma load_and_resize_degenerate:
  assumes "chan 3 fg = Inr fg_mask" "get_bbox fg_mask = Inl DegenerateMask"
    "max (shape0 bg) (shape1 bg) \<noteq> 0"
  shows "run_full_pipeline ext bg fg pos rel mes = Inl DegenerateMask"
  using assms by (simp add: run_full_pipeline_def load_and_resize_def Let_def py_truediv_def)

text \<open>
  C4. For a mask that is entirely zero the extraction of the bounding box reports
  \<open>DegenerateMask\<close>, and the pipeline stops with that error instead of going on with an
  empty box. For a mask with a non-zero pixel it returns the smallest rectangle that
  holds every non-zero pixel: each of its four sides touches one.
\<close>

theorem get_bbox_degenerate_or_minimal:
  assumes "has_shape fg_mask h w"
  shows "((\<forall>i<h. \<forall>j<w. fg_mask ! i ! j = 0) \<longrightarrow>
            get_bbox fg_mask = Inl DegenerateMask
          \<and> (\<forall>ext bg fg pos rel mes.
                chan 3 fg = Inr fg_mask \<longrightarrow> max (shape0 bg) (shape1 bg) \<noteq> 0 \<longrightarrow>
                run_full_pipeline ext bg fg pos rel mes = Inl DegenerateMask))
     \<and> ((\<exists>i<h. \<exists>j<w. fg_mask ! i ! j \<noteq> 0) \<longrightarrow>
          (\<exists>r0 r1 c0 c1. get_bbox fg_mask = Inr (r0, r1, c0, c1)
             \<and> r0 \<le> r1 \<and> r1 < h \<and> c0 \<le> c1 \<and> c1 < w
             \<and> (\<forall>i<h. \<forall>j<w. fg_mask ! i ! j \<noteq> 0 \<longrightarrow>
                    r0 \<le> i \<and> i \<le> r1 \<and> c0 \<le> j \<and> j \<le> c1)
             \<and> (\<exists>j<w. fg_mask ! r0 ! j \<noteq> 0) \<and> (\<exists>j<w. fg_mask ! r1 ! j \<noteq> 0)
             \<and> (\<exists>i<h. fg_mask ! i ! c0 \<noteq> 0) \<and> (\<exists>i<h. fg_mask ! i ! c1 \<noteq> 0)))"
proof (intro conjI impI)
  assume z: "\<forall>i<h. \<forall>j<w. fg_mask ! i ! j = 0"
  show d: "get_bbox fg_mask = Inl DegenerateMask" using assms z by (rule get_bbox_zero)
  show "\<forall>ext bg fg pos rel mes.
          chan 3 fg = Inr fg_mask \<longrightarrow> max (shape0 bg) (shape1 bg) \<noteq> 0 \<longrightarrow>
          run_full_pipeline ext bg fg pos rel mes = Inl DegenerateMask"
    using d by (blast intro: load_and_resize_degenerate)
next
  assume "\<exists>i<h. \<exists>j<w. fg_mask ! i ! j \<noteq> 0"
  then obtain i0 j0 where "i0 < h" "j0 < w" "fg_mask ! i0 ! j0 \<noteq> 0" by blast
  with assms show "\<exists>r0 r1 c0 c1. get_bbox fg_mask = Inr (r0, r1, c0, c1)
             \<and> r0 \<le> r1 \<and> r1 < h \<and> c0 \<le> c1 \<and> c1 < w
             \<and> (\<forall>i<h. \<forall>j<w. fg_mask ! i ! j \<noteq> 0 \<longrightarrow>
                    r0 \<le> i \<and> i \<le> r1 \<and> c0 \<le> j \<and> j \<le> c1)
             \<and> (\<exists>j<w. fg_mask ! r0 ! j \<noteq> 0) \<and> (\<exists>j<w. fg_mask ! r1 ! j \<noteq> 0)
             \<and> (\<exists>i<h. fg_mask ! i ! c0 \<noteq> 0) \<and> (\<exists>i<h. fg_mask ! i ! c1 \<noteq> 0)"
    by (rule get_bbox_nonzero)
qed

theorem get_bbox_degenerate_or_minimal_witness:
  "get_bbox [[0, 0], [0, 0]] = Inl DegenerateMask
   \<and> run_full_pipeline stub_externals example_bg
        [[[1, 1, 1, 0], [1, 1, 1, 0]], [[1, 1, 1, 0], [1, 1, 1, 0]]] (1 / 2, 1 / 2) (1 / 1024) 2
      = Inl DegenerateMask
   \<and> get_bbox [[0, 0, 0], [0, 1, 1], [0, 0, 0]] = Inr (1, 1, 1, 2)"
proof -
  have s: "has_shape [[0, 0], [0, 0::real]] 2 2" by (simp add: has_shape_def)
  have z: "\<forall>i<2. \<forall>j<2. [[0, 0], [0, 0::real]] ! i ! j = 0"
    by (simp add: less_Suc_eq numeral_2_eq_2)
  have c: "chan 3 [[[1, 1, 1, 0], [1, 1, 1, 0]], [[1, 1, 1, 0], [1, 1, 1, 0::real]]]
           = Inr [[0, 0], [0, 0]]" by code_simp
  have m: "max (shape0 example_bg) (shape1 example_bg) \<noteq> 0" by (simp add: example_bg_facts)
  have s': "has_shape [[0, 0, 0], [0, 1, 1], [0, 0, 0::real]] 3 3" by (simp add: has_shape_def)
  have n: "\<exists>i<3. \<exists>j<3. [[0, 0, 0], [0, 1, 1], [0, 0, 0::real]] ! i ! j \<noteq> 0"
    by (rule exI[of _ 1], simp, rule exI[of _ 1], simp)
  have b: "get_bbox [[0, 0, 0], [0, 1, 1], [0, 0, 0]] = Inr (1, 1, 1, 2)" by code_simp
  from get_bbox_degenerate_or_minimal [OF s] z c m
       get_bbox_degenerate_or_minimal [OF s'] n b
  show ?thesis by blast
qed

section \<open>The target edge of the crop\<close>

lemma run512_floats:
  "py_truediv 512 512 = Inr 1" "py_int (py_mul 512 1) = 512" "py_int (py_mul (1 / 2) 512) = 256"
  by code_simp+

lemma load_512:
  "load_and_resize stub_externals example_bg example_fg 512 =
     Inr (example_loaded\<lparr>bg_height := 512, bg_width := 512,
            bg_im := replicate 512 (replicate 512 [1, 1, 1])\<rparr>)"
  by (simp add: load_and_resize_def Let_def example_chan example_bbox example_crops
        example_floats example_bg_facts example_fg_facts example_crop_facts
        stub_externals_def example_loaded_def)

lemma run_512:
  "run_full_pipeline stub_externals example_bg example_fg (1 / 2, 1 / 2) (1 / 1024) 512
   = Inr example_run512"
  unfolding example_run512_def
proof (rule Inr_projr, rule stub_run_succeeds[OF load_512 _ _ _ refl])
  show "py_truediv 512 (max (bg_height (example_loaded\<lparr>bg_height := 512, bg_width := 512,
            bg_im := replicate 512 (replicate 512 [1, 1, 1])\<rparr>))
          (bg_width (example_loaded\<lparr>bg_height := 512, bg_width := 512,
            bg_im := replicate 512 (replicate 512 [1, 1, 1])\<rparr>))) = Inr 1"
    by (simp add: example_loaded_def run512_floats)
qed (simp_all add: example_loaded_def example_bg_facts rescale_fg_def Let_def
       run512_floats example_floats)

text \<open>
  C5. The claim has the cropped image and mask rescaled so that the longer edge equals
  the target edge given to the pipeline. The code rescales the crop with the module
  constant \<^verbatim>\<open>MAX_EDGE_SIZE\<close> instead of its parameter: in the run with
  \<^verbatim>\<open>max_edge_size = 512\<close> the crop of 2 by 2 pixels becomes 1024 by 1024, where the
  claim has 512 by 512, while the background becomes 512 by 512.
\<close>

theorem crop_rescaled_to_1024_at_512:
  "run_full_pipeline stub_externals example_bg example_fg (1 / 2, 1 / 2) (1 / 1024) 512
     = Inr example_run512
   \<and> crop_shape (loaded_of example_run512) = (2, 2)
   \<and> cropped_height (loaded_of example_run512) = 1024
   \<and> cropped_width (loaded_of example_run512) = 1024
   \<and> bg_height (loaded_of example_run512) = 512
   \<and> bg_width (loaded_of example_run512) = 512"
proof -
  have "loaded_of example_run512 = example_loaded\<lparr>bg_height := 512, bg_width := 512,
            bg_im := replicate 512 (replicate 512 [1, 1, 1])\<rparr>"
    using run_full_pipeline_InrD(1) [OF run_512] by (simp add: load_512)
  then show ?thesis using run_512 by (simp add: example_loaded_def)
qed

section \<open>The resolution of the light fit\<close>

lemma fg_full_buffers_canvas:
  assumes "fg_full_buffers ld rs = Inr fb"
  shows "0 \<le> bg_height ld" "0 \<le> bg_width ld"
  using assms by (auto simp: fg_full_buffers_def np_zeros_def split: if_splits)

lemma light_coeffs_InrD:
  assumes "light_coeffs ext ld es = Inr lt"
  shows "max (bg_height ld) (bg_width ld) \<noteq> 0"
    and "small_height lt = py_int (fl (of_int (bg_height ld)
           * fl (512 / of_int (max (bg_height ld) (bg_width ld)))))"
    and "small_width lt = py_int (fl (of_int (bg_width ld)
           * fl (512 / of_int (max (bg_height ld) (bg_width ld)))))"
    and "small_bg_im lt = resize3 ext (bg_im ld) (small_height lt, small_width lt) (Some True)"
    and "small_bg_inv_shading lt =
           resize3 ext (im_inv_shading es) (small_height lt, small_width lt) (Some True)"
    and "small_bg_normals lt = get_omni_normals ext (small_bg_im lt)"
    and "\<not> isl (chan 0 (small_bg_inv_shading lt))"
    and "(coeffs lt, light_vis lt) =
           get_light_coeffs ext (projr (chan 0 (small_bg_inv_shading lt)))
             (small_bg_normals lt) (small_bg_im lt)"
  using assms
  by (auto simp: light_coeffs_def Let_def py_truediv_def py_mul_def
      split: sum.splits if_splits)

lemma longer_edge_512:
  assumes "0 < L"
  shows "py_int (fl (of_int L * fl (512 / of_int L))) \<in> {511, 512}"
  using pow2_edge[of L 9] assms by simp

lemma bg49_facts:
  "shape0 example_bg49 = 49" "shape1 example_bg49 = 49"
  "first_pixel [] example_bg49 = [1, 1, 1]"
  by (simp_all add: example_bg49_def)

lemma bg49_floats:
  "py_truediv 49 49 = Inr 1" "py_int (py_mul 49 1) = 49" "py_int (py_mul (1 / 2) 49) = 24"
  "py_truediv 512 49 = Inr (5882252574524729 / 562949953421312)"
  "py_int (py_mul 49 (5882252574524729 / 562949953421312)) = 511"
  "fl (512 / 49) = 5882252574524729 / 562949953421312"
  "py_int (fl (288230376151711721 / 562949953421312)) = 511"
  by code_simp+

lemma load_bg49:
  "load_and_resize stub_externals example_bg49 example_fg 49 =
     Inr (example_loaded\<lparr>bg_height := 49, bg_width := 49, bg_im := example_bg49\<rparr>)"
  by (simp add: load_and_resize_def Let_def example_chan example_bbox example_crops
        example_crop_facts example_fg_facts example_floats bg49_floats bg49_facts
        stub_externals_def example_loaded_def example_bg49_def)

lemma run_bg49:
  "run_full_pipeline stub_externals example_bg49 example_fg (1 / 2, 1 / 2) (1 / 1024) 49
   = Inr example_run49"
  unfolding example_run49_def
proof (rule Inr_projr, rule stub_run_succeeds[OF load_bg49 _ _ _ refl])
  show "py_truediv 512 (max (bg_height (example_loaded\<lparr>bg_height := 49, bg_width := 49,
            bg_im := example_bg49\<rparr>))
          (bg_width (example_loaded\<lparr>bg_height := 49, bg_width := 49,
            bg_im := example_bg49\<rparr>))) = Inr (5882252574524729 / 562949953421312)"
    by (simp add: example_loaded_def bg49_floats)
qed (simp_all add: example_loaded_def bg49_facts rescale_fg_def Let_def
       bg49_floats example_floats)

text \<open>
  C6. Before the light coefficients are fitted, the background image and its inverse
  shading are resized with anti-aliasing to one small resolution, the normals are
  computed from the small image, and \<^verbatim>\<open>get_light_coeffs\<close> is called on these three
  buffers. The small resolution is
  \<open>(int(bg_height\<cdot>(512/max_dim)), int(bg_width\<cdot>(512/max_dim)))\<close> in float arithmetic; its
  longest edge is 512 or 511.
\<close>

theorem light_fit_on_small_buffers:
  assumes "run_full_pipeline ext bg fg pos rel max_edge_size = Inr out"
  shows "small_height (lighting_of out) =
           py_int (fl (of_int (bg_height (loaded_of out))
             * fl (512 / of_int (max (bg_height (loaded_of out)) (bg_width (loaded_of out))))))
     \<and> small_width (lighting_of out) =
           py_int (fl (of_int (bg_width (loaded_of out))
             * fl (512 / of_int (max (bg_height (loaded_of out)) (bg_width (loaded_of out))))))
     \<and> (bg_width (loaded_of out) \<le> bg_height (loaded_of out) \<longrightarrow>
           small_height (lighting_of out) \<in> {511, 512})
     \<and> (bg_height (loaded_of out) \<le> bg_width (loaded_of out) \<longrightarrow>
           small_width (lighting_of out) \<in> {511, 512})
     \<and> small_bg_im (lighting_of out) =
           resize3 ext (bg_im (loaded_of out))
             (small_height (lighting_of out), small_width (lighting_of out)) (Some True)
     \<and> small_bg_inv_shading (lighting_of out) =
           resize3 ext (im_inv_shading (estimates_of out))
             (small_height (lighting_of out), small_width (lighting_of out)) (Some True)
     \<and> small_bg_normals (lighting_of out) =
           get_omni_normals ext (small_bg_im (lighting_of out))
     \<and> \<not> isl (chan 0 (small_bg_inv_shading (lighting_of out)))
     \<and> (coeffs (lighting_of out), light_vis (lighting_of out)) =
           get_light_coeffs ext (projr (chan 0 (small_bg_inv_shading (lighting_of out))))
             (small_bg_normals (lighting_of out)) (small_bg_im (lighting_of out))"
proof -
  define l where "l = loaded_of out"
  define g where "g = lighting_of out"
  note r = run_full_pipeline_InrD[OF assms, folded l_def g_def]
  note d = light_coeffs_InrD[OF r(7)]
  note c = fg_full_buffers_canvas[OF r(4)]
  have h: "bg_width l \<le> bg_height l \<Longrightarrow> small_height g \<in> {511, 512}"
    using longer_edge_512[of "bg_height l"] d(1) c unfolding d(2)
    by (simp add: max_def split: if_splits)
  have w: "bg_height l \<le> bg_width l \<Longrightarrow> small_width g \<in> {511, 512}"
    using longer_edge_512[of "bg_width l"] d(1) c unfolding d(3)
    by (simp add: max_def split: if_splits)
  show ?thesis
    unfolding l_def[symmetric] g_def[symmetric]
    using d(2-8) h w by blast
qed

theorem light_fit_on_small_buffers_witness:
  "small_height (lighting_of example_run) = 512 \<and> small_width (lighting_of example_run) = 512
   \<and> small_bg_im (lighting_of example_run) =
        resize3 stub_externals (bg_im (loaded_of example_run)) (512, 512) (Some True)
   \<and> coeffs (lighting_of example_run) = [0, 0, 1, 0]"
  using light_fit_on_small_buffers [OF example_run_ok]
  by (simp add: example_run_def example_lighting_def example_loaded_def stub_externals_def)

text \<open>
  On a background of 49 by 49 pixels the small resolution is 511 by 511: the product of
  49 and the float nearest to \<open>512/49\<close> rounds to a float just below 512.
\<close>

theorem small_longest_edge_511:
  "run_full_pipeline stub_externals example_bg49 example_fg (1 / 2, 1 / 2) (1 / 1024) 49
     = Inr example_run49
   \<and> bg_height (loaded_of example_run49) = 49 \<and> bg_width (loaded_of example_run49) = 49
   \<and> small_height (lighting_of example_run49) = 511
   \<and> small_width (lighting_of example_run49) = 511"
proof -
  have l: "loaded_of example_run49
           = example_loaded\<lparr>bg_height := 49, bg_width := 49, bg_im := example_bg49\<rparr>"
    using run_full_pipeline_InrD(1) [OF run_bg49] by (simp add: load_bg49)
  have "small_height (lighting_of example_run49) = 511
        \<and> small_width (lighting_of example_run49) = 511"
    using light_coeffs_InrD(2,3) [OF run_full_pipeline_InrD(7) [OF run_bg49]]
    by (simp add: l bg49_floats)
  then show ?thesis using run_bg49 l by simp
qed

section \<open>The harmonized composite\<close>

lemma bdim_same [simp]: "bdim d d = Some d"
  by (simp add: bdim_def)

lemma bdim_one [simp]: "bdim d 1 = Some d" "bdim d (Suc 0) = Some d"
  by (simp_all add: bdim_def)

lemma bidx_less: "i < d \<Longrightarrow> bidx d i = i"
  by (auto simp: bidx_def)

lemma np_binop_nth:
  assumes "np_binop f a b = Inr r"
    and "shape0 b = shape0 a" "shape1 b = shape1 a" "shape2 b = 1"
    and "i < shape0 a" "j < shape1 a" "k < shape2 a"
  shows "r ! i ! j ! k = f (a ! i ! j ! k) (b ! i ! j ! 0)"
proof -
  have "r = map (\<lambda>i. map (\<lambda>j. map (\<lambda>k.
               f (a ! bidx (shape0 a) i ! bidx (shape1 a) j ! bidx (shape2 a) k)
                 (b ! bidx (shape0 a) i ! bidx (shape1 a) j ! bidx 1 k))
             [0..<shape2 a]) [0..<shape1 a]) [0..<shape0 a]"
    using assms(1) by (simp add: np_binop_def assms(2-4))
  then show ?thesis using assms(5-7) by (simp add: bidx_less) (simp add: bidx_def)
qed

lemma np_pow_nth:
  "i < length a \<Longrightarrow> j < length (a ! i) \<Longrightarrow> k < length (a ! i ! j) \<Longrightarrow>
   np_pow a g ! i ! j ! k = (a ! i ! j ! k) powr g"
  by (simp add: np_pow_def)

lemma harmonize_InrD:
  assumes "harmonize ext fb cs = Inr hm"
  shows "comp_albedo_harmonized hm =
           np_pow (harmonize_albedo ext (comp cs) (fg_full_mask fb) (comp_inv_shading cs))
             (22 / 10)"
    and "np_binop (\<lambda>x y. x * y) (comp_albedo_harmonized hm) (uninvert ext (comp_inv_shading cs))
           = Inr (comp_harmonized hm)"
    and "np_binop (\<lambda>x y. x / y) (np_pow (comp cs) (22 / 10)) (uninvert ext (comp_inv_shading cs))
           = Inr (original_albedo hm)"
  using assms by (auto simp: harmonize_def Let_def split: sum.splits)

text \<open>
  C7. The harmonized albedo is the output of the external harmonizer, applied to the
  composite, the full-canvas mask and the composite inverse shading, raised to the power
  2.2 element by element. The harmonized composite is that albedo multiplied by
  \<^verbatim>\<open>uninvert\<close> of the composite inverse shading: pixel by pixel, each channel of the
  albedo times the single channel of the uninverted shading.
\<close>

theorem harmonized_composite:
  assumes "run_full_pipeline ext bg fg pos rel max_edge_size = Inr out"
  shows "comp_albedo_harmonized (harmonized_of out) =
           np_pow (harmonize_albedo ext (comp (composites_of out)) (fg_full_mask (full_of out))
                     (comp_inv_shading (composites_of out))) (22 / 10)
     \<and> (\<forall>i j k. i < length (harmonize_albedo ext (comp (composites_of out))
                        (fg_full_mask (full_of out)) (comp_inv_shading (composites_of out)))
          \<longrightarrow> j < length (harmonize_albedo ext (comp (composites_of out))
                        (fg_full_mask (full_of out)) (comp_inv_shading (composites_of out)) ! i)
          \<longrightarrow> k < length (harmonize_albedo ext (comp (composites_of out))
                        (fg_full_mask (full_of out)) (comp_inv_shading (composites_of out)) ! i ! j)
          \<longrightarrow> comp_albedo_harmonized (harmonized_of out) ! i ! j ! k =
                (harmonize_albedo ext (comp (composites_of out)) (fg_full_mask (full_of out))
                   (comp_inv_shading (composites_of out)) ! i ! j ! k) powr (22 / 10))
     \<and> np_binop (\<lambda>x y. x * y) (comp_albedo_harmonized (harmonized_of out))
           (uninvert ext (comp_inv_shading (composites_of out)))
         = Inr (comp_harmonized (harmonized_of out))
     \<and> (\<forall>i j k.
           shape0 (uninvert ext (comp_inv_shading (composites_of out)))
             = shape0 (comp_albedo_harmonized (harmonized_of out))
         \<longrightarrow> shape1 (uninvert ext (comp_inv_shading (composites_of out)))
             = shape1 (comp_albedo_harmonized (harmonized_of out))
         \<longrightarrow> shape2 (uninvert ext (comp_inv_shading (composites_of out))) = 1
         \<longrightarrow> i < shape0 (comp_albedo_harmonized (harmonized_of out))
         \<longrightarrow> j < shape1 (comp_albedo_harmonized (harmonized_of out))
         \<longrightarrow> k < shape2 (comp_albedo_harmonized (harmonized_of out))
         \<longrightarrow> comp_harmonized (harmonized_of out) ! i ! j ! k =
               comp_albedo_harmonized (harmonized_of out) ! i ! j ! k
               * uninvert ext (comp_inv_shading (composites_of out)) ! i ! j ! 0)"
proof -
  note h = harmonize_InrD[OF run_full_pipeline_InrD(6)[OF assms]]
  show ?thesis
  proof (intro conjI allI impI)
    show "comp_albedo_harmonized (harmonized_of out) =
           np_pow (harmonize_albedo ext (comp (composites_of out)) (fg_full_mask (full_of out))
                     (comp_inv_shading (composites_of out))) (22 / 10)"
      by (rule h(1))
    show "np_binop (\<lambda>x y. x * y) (comp_albedo_harmonized (harmonized_of out))
           (uninvert ext (comp_inv_shading (composites_of out)))
         = Inr (comp_harmonized (harmonized_of out))"
      by (rule h(2))
  next
    fix i j k
    assume "i < length (harmonize_albedo ext (comp (composites_of out))
                        (fg_full_mask (full_of out)) (comp_inv_shading (composites_of out)))"
      "j < length (harmonize_albedo ext (comp (composites_of out))
                        (fg_full_mask (full_of out)) (comp_inv_shading (composites_of out)) ! i)"
      "k < length (harmonize_albedo ext (comp (composites_of out))
                        (fg_full_mask (full_of out)) (comp_inv_shading (composites_of out)) ! i ! j)"
    then show "comp_albedo_harmonized (harmonized_of out) ! i ! j ! k =
                (harmonize_albedo ext (comp (composites_of out)) (fg_full_mask (full_of out))
                   (comp_inv_shading (composites_of out)) ! i ! j ! k) powr (22 / 10)"
      unfolding h(1) by (rule np_pow_nth)
  next
    fix i j k
    assume "shape0 (uninvert ext (comp_inv_shading (composites_of out)))
             = shape0 (comp_albedo_harmonized (harmonized_of out))"
      "shape1 (uninvert ext (comp_inv_shading (composites_of out)))
             = shape1 (comp_albedo_harmonized (harmonized_of out))"
      "shape2 (uninvert ext (comp_inv_shading (composites_of out))) = 1"
      "i < shape0 (comp_albedo_harmonized (harmonized_of out))"
      "j < shape1 (comp_albedo_harmonized (harmonized_of out))"
      "k < shape2 (comp_albedo_harmonized (harmonized_of out))"
    with h(2) show "comp_harmonized (harmonized_of out) ! i ! j ! k =
               comp_albedo_harmonized (harmonized_of out) ! i ! j ! k
               * uninvert ext (comp_inv_shading (composites_of out)) ! i ! j ! 0"
      by (rule np_binop_nth)
  qed
qed

theorem harmonized_composite_witness:
  "comp_albedo_harmonized (harmonized_of example_run) ! 0 ! 0 ! 0 = 1 powr (22 / 10)
   \<and> comp_harmonized (harmonized_of example_run) ! 0 ! 0 ! 0 = 1 * 2
   \<and> comp_harmonized (harmonized_of example_run) ! 1 ! 1 ! 2 = 0 * 2"
  using harmonized_composite [OF example_run_ok]
  by (simp add: example_run_def example_harmonized_def example_composites_def
        stub_externals_def np_pow_def)

section \<open>Writing the patch into the canvas\<close>

lemma slice_start_fits:
  assumes "0 \<le> t" "t + int h \<le> int n"
  shows "slice_bounds n t (t + int h) = (nat t, h)"
  using assms by (auto simp: slice_bounds_def slice_index_def Let_def)

lemma slice_len_short:
  assumes "0 \<le> t" "int n < t + int h" "0 < h"
  shows "snd (slice_bounds n t (t + int h)) < h"
  using assms by (auto simp: slice_bounds_def slice_index_def Let_def)

lemma has_shape_shapes:
  assumes "has_shape a h w" "0 < h"
  shows "shape0 a = h" "shape1 a = w"
  using assms by (cases a; simp add: has_shape_def shape0_def shape1_def)+

lemma patch_shape_has_shape:
  assumes "has_shape a h w"
  shows "patch_shape a (int h, int w) = (h, w)"
proof (cases "h = 0")
  case True
  then show ?thesis using assms by (simp add: patch_shape_def has_shape_def shape0_def)
next
  case False
  then show ?thesis using has_shape_shapes[OF assms] by (simp add: patch_shape_def)
qed

lemma set_slice2_inside:
  assumes p: "has_shape src h w" and t: "0 \<le> t" "0 \<le> l"
    and f: "t + int h \<le> int H" "l + int w \<le> int W"
  shows "set_slice2 cast (H, W) (tabulate2 H W (\<lambda>i j. z)) t (t + int h) l (l + int w)
           (patch_shape src (int h, int w)) src =
     Inr (tabulate2 H W (\<lambda>i j.
            if nat t \<le> i \<and> i < nat t + h \<and> nat l \<le> j \<and> j < nat l + w
            then cast (src ! (i - nat t) ! (j - nat l)) else z))"
proof -
  note r = slice_start_fits[OF t(1) f(1)]
  note c = slice_start_fits[OF t(2) f(2)]
  have "tabulate2 H W (\<lambda>i j. if nat t \<le> i \<and> i < nat t + h \<and> nat l \<le> j \<and> j < nat l + w
           then cast (src ! (if h = 1 then 0 else i - nat t) ! (if w = 1 then 0 else j - nat l))
           else tabulate2 H W (\<lambda>i j. z) ! i ! j)
      = tabulate2 H W (\<lambda>i j. if nat t \<le> i \<and> i < nat t + h \<and> nat l \<le> j \<and> j < nat l + w
           then cast (src ! (i - nat t) ! (j - nat l)) else z)"
    by (auto simp: tabulate2_def)
  then show ?thesis
    by (simp add: set_slice2_def Let_def patch_shape_has_shape[OF p] r c broadcastable_def)
qed

lemma set_slice2_outside:
  assumes p: "has_shape src h w" and t: "0 \<le> t" "0 \<le> l"
    and f: "(1 < h \<and> int H < t + int h) \<or> (1 < w \<and> int W < l + int w)"
  shows "set_slice2 cast (H, W) dst t (t + int h) l (l + int w)
           (patch_shape src (int h, int w)) src = Inl ValueError"
proof -
  have "\<not> (broadcastable h (snd (slice_bounds H t (t + int h)))
           \<and> broadcastable w (snd (slice_bounds W l (l + int w))))"
    using f slice_len_short[OF t(1), of H h] slice_len_short[OF t(2), of W w]
    by (auto simp: broadcastable_def)
  then show ?thesis
    by (auto simp: set_slice2_def Let_def patch_shape_has_shape[OF p] split: prod.splits)
qed

lemma fg_full_buffers_ValueError:
  assumes "fg_full_buffers ld rs = Inl e"
  shows "e = ValueError"
  using assms
  by (auto simp: fg_full_buffers_def Let_def np_zeros_def set_slice2_def
        split: sum.splits if_splits prod.splits)

lemma fg_full_buffers_ok:
  "(\<exists>fb. fg_full_buffers ld rs = Inr fb) \<longleftrightarrow>
     0 \<le> bg_height ld \<and> 0 \<le> bg_width ld
     \<and> (\<forall>patch \<in> set [fg_mask_rescaled rs, fg_depth_rescaled rs].
           broadcastable (fst (patch_shape patch (fg_scaled_height rs, fg_scaled_width rs)))
             (snd (slice_bounds (nat (bg_height ld)) (top rs) (top rs + fg_scaled_height rs)))
         \<and> broadcastable (snd (patch_shape patch (fg_scaled_height rs, fg_scaled_width rs)))
             (snd (slice_bounds (nat (bg_width ld)) (left rs) (left rs + fg_scaled_width rs))))"
proof (cases "0 \<le> bg_height ld \<and> 0 \<le> bg_width ld")
  case False
  then show ?thesis by (auto simp: fg_full_buffers_def Let_def np_zeros_def)
next
  case True
  define z where "z = tabulate2 (nat (bg_height ld)) (nat (bg_width ld)) (\<lambda>i j. 0::real)"
  define wr where "wr patch = set_slice2 float32 (nat (bg_height ld), nat (bg_width ld)) z
      (top rs) (top rs + fg_scaled_height rs) (left rs) (left rs + fg_scaled_width rs)
      (patch_shape patch (fg_scaled_height rs, fg_scaled_width rs)) patch" for patch
  have z: "np_zeros (bg_height ld) (bg_width ld) = Inr z"
    using True by (simp add: np_zeros_def z_def)
  have f: "fg_full_buffers ld rs =
      (case wr (fg_mask_rescaled rs) of Inl e \<Rightarrow> Inl e | Inr full_mask \<Rightarrow>
       case wr (fg_depth_rescaled rs) of Inl e \<Rightarrow> Inl e | Inr full_depth \<Rightarrow>
       Inr \<lparr>fg_full_mask = add_chan full_mask, fg_full_depth = full_depth\<rparr>)"
    by (simp add: fg_full_buffers_def Let_def z wr_def split: sum.splits)
  have "(\<exists>fb. fg_full_buffers ld rs = Inr fb)
      \<longleftrightarrow> \<not> isl (wr (fg_mask_rescaled rs)) \<and> \<not> isl (wr (fg_depth_rescaled rs))"
    unfolding f by (cases "wr (fg_mask_rescaled rs)"; cases "wr (fg_depth_rescaled rs)"; simp)
  then show ?thesis using True by (simp add: wr_def isl_set_slice2)
qed

lemma fg_full_buffers_stops_run:
  assumes "load_and_resize ext bg fg mes = Inr ld"
    and "fg_full_buffers ld (rescale_fg ext ld (estimate ext ld) pos rel) = Inl e"
  shows "run_full_pipeline ext bg fg pos rel mes = Inl e"
  using assms by (simp add: run_full_pipeline_def Let_def)

lemma fg_full_buffers_inside:
  assumes p: "has_shape (fg_mask_rescaled rs) h w" "has_shape (fg_depth_rescaled rs) h w"
    and s: "fg_scaled_height rs = int h" "fg_scaled_width rs = int w"
    and t: "0 \<le> top rs" "0 \<le> left rs"
    and f: "top rs + int h \<le> bg_height ld" "left rs + int w \<le> bg_width ld"
  shows "fg_full_buffers ld rs =
     Inr \<lparr>fg_full_mask = add_chan (tabulate2 (nat (bg_height ld)) (nat (bg_width ld))
             (\<lambda>i j. if nat (top rs) \<le> i \<and> i < nat (top rs) + h
                       \<and> nat (left rs) \<le> j \<and> j < nat (left rs) + w
                    then float32 (fg_mask_rescaled rs ! (i - nat (top rs)) ! (j - nat (left rs)))
                    else 0)),
          fg_full_depth = tabulate2 (nat (bg_height ld)) (nat (bg_width ld))
             (\<lambda>i j. if nat (top rs) \<le> i \<and> i < nat (top rs) + h
                       \<and> nat (left rs) \<le> j \<and> j < nat (left rs) + w
                    then float32 (fg_depth_rescaled rs ! (i - nat (top rs)) ! (j - nat (left rs)))
                    else 0)\<rparr>"
proof -
  have e: "0 \<le> bg_height ld" "0 \<le> bg_width ld" using t f by linarith+
  then have z: "np_zeros (bg_height ld) (bg_width ld)
      = Inr (tabulate2 (nat (bg_height ld)) (nat (bg_width ld)) (\<lambda>i j. 0))"
    by (simp add: np_zeros_def)
  have f': "top rs + int h \<le> int (nat (bg_height ld))"
    "left rs + int w \<le> int (nat (bg_width ld))"
    using e f by simp_all
  show ?thesis
    by (simp add: fg_full_buffers_def Let_def z s
          set_slice2_inside[OF p(1) t f'] set_slice2_inside[OF p(2) t f'] split: sum.splits)
qed

lemma fg_full_buffers_outside:
  assumes p: "has_shape (fg_mask_rescaled rs) h w"
    and s: "fg_scaled_height rs = int h" "fg_scaled_width rs = int w"
    and t: "0 \<le> top rs" "0 \<le> left rs"
    and f: "(1 < h \<and> bg_height ld < top rs + int h) \<or> (1 < w \<and> bg_width ld < left rs + int w)"
  shows "fg_full_buffers ld rs = Inl ValueError"
proof (cases "0 \<le> bg_height ld \<and> 0 \<le> bg_width ld")
  case False
  then show ?thesis by (auto simp: fg_full_buffers_def Let_def np_zeros_def)
next
  case True
  then have z: "np_zeros (bg_height ld) (bg_width ld)
      = Inr (tabulate2 (nat (bg_height ld)) (nat (bg_width ld)) (\<lambda>i j. 0))"
    by (simp add: np_zeros_def)
  have f': "(1 < h \<and> int (nat (bg_height ld)) < top rs + int h)
          \<or> (1 < w \<and> int (nat (bg_width ld)) < left rs + int w)"
    using True f by simp
  show ?thesis
    by (simp add: fg_full_buffers_def Let_def z s set_slice2_outside[OF p t f'])
qed

text \<open>
  C9. The core does not validate the placement against the canvas. The rescaled mask and
  depth are assigned to the slice \<^verbatim>\<open>top : top + fg_scaled_height\<close>,
  \<^verbatim>\<open>left : left + fg_scaled_width\<close> of two float32 canvases of the size of the
  background. The slice is clamped to the canvas, a negative bound counting from the end,
  and the two writes succeed exactly when the canvas has no negative dimension and every
  axis of each patch has the length of the clamped slice or the length one; every other
  write is a \<open>ValueError\<close>, which ends the run before the composites are computed. In
  particular a patch whose footprint lies inside the canvas is written at its footprint,
  zero elsewhere, each value rounded to float32; and a patch of more than one row that
  reaches past the last row of the canvas from an offset that is not negative, or of
  more than one column that reaches past the last column, is a \<open>ValueError\<close>.
\<close>

theorem full_canvas_write:
  "((\<exists>fb. fg_full_buffers ld rs = Inr fb) \<longleftrightarrow>
      0 \<le> bg_height ld \<and> 0 \<le> bg_width ld
      \<and> (\<forall>patch \<in> set [fg_mask_rescaled rs, fg_depth_rescaled rs].
            broadcastable (fst (patch_shape patch (fg_scaled_height rs, fg_scaled_width rs)))
              (snd (slice_bounds (nat (bg_height ld)) (top rs) (top rs + fg_scaled_height rs)))
          \<and> broadcastable (snd (patch_shape patch (fg_scaled_height rs, fg_scaled_width rs)))
              (snd (slice_bounds (nat (bg_width ld)) (left rs) (left rs + fg_scaled_width rs)))))
   \<and> (\<forall>e. fg_full_buffers ld rs = Inl e \<longrightarrow> e = ValueError)
   \<and> (load_and_resize ext bg fg mes = Inr ld \<longrightarrow>
        rs = rescale_fg ext ld (estimate ext ld) pos rel \<longrightarrow>
        fg_full_buffers ld rs = Inl ValueError \<longrightarrow>
        run_full_pipeline ext bg fg pos rel mes = Inl ValueError)
   \<and> (has_shape (fg_mask_rescaled rs) h w \<longrightarrow> has_shape (fg_depth_rescaled rs) h w \<longrightarrow>
        fg_scaled_height rs = int h \<longrightarrow> fg_scaled_width rs = int w \<longrightarrow>
        0 \<le> top rs \<longrightarrow> 0 \<le> left rs \<longrightarrow>
        top rs + int h \<le> bg_height ld \<longrightarrow> left rs + int w \<le> bg_width ld \<longrightarrow>
        fg_full_buffers ld rs =
          Inr \<lparr>fg_full_mask = add_chan (tabulate2 (nat (bg_height ld)) (nat (bg_width ld))
                  (\<lambda>i j. if nat (top rs) \<le> i \<and> i < nat (top rs) + h
                            \<and> nat (left rs) \<le> j \<and> j < nat (left rs) + w
                         then float32 (fg_mask_rescaled rs ! (i - nat (top rs)) ! (j - nat (left rs)))
                         else 0)),
               fg_full_depth = tabulate2 (nat (bg_height ld)) (nat (bg_width ld))
                  (\<lambda>i j. if nat (top rs) \<le> i \<and> i < nat (top rs) + h
                            \<and> nat (left rs) \<le> j \<and> j < nat (left rs) + w
                         then float32 (fg_depth_rescaled rs ! (i - nat (top rs)) ! (j - nat (left rs)))
                         else 0)\<rparr>)
   \<and> (has_shape (fg_mask_rescaled rs) h w \<longrightarrow>
        fg_scaled_height rs = int h \<longrightarrow> fg_scaled_width rs = int w \<longrightarrow>
        0 \<le> top rs \<longrightarrow> 0 \<le> left rs \<longrightarrow>
        (1 < h \<and> bg_height ld < top rs + int h) \<or> (1 < w \<and> bg_width ld < left rs + int w) \<longrightarrow>
        fg_full_buffers ld rs = Inl ValueError)"
proof (intro conjI impI allI)
  show "(\<exists>fb. fg_full_buffers ld rs = Inr fb) \<longleftrightarrow>
      0 \<le> bg_height ld \<and> 0 \<le> bg_width ld
      \<and> (\<forall>patch \<in> set [fg_mask_rescaled rs, fg_depth_rescaled rs].
            broadcastable (fst (patch_shape patch (fg_scaled_height rs, fg_scaled_width rs)))
              (snd (slice_bounds (nat (bg_height ld)) (top rs) (top rs + fg_scaled_height rs)))
          \<and> broadcastable (snd (patch_shape patch (fg_scaled_height rs, fg_scaled_width rs)))
              (snd (slice_bounds (nat (bg_width ld)) (left rs) (left rs + fg_scaled_width rs))))"
    by (rule fg_full_buffers_ok)
next
  fix e assume "fg_full_buffers ld rs = Inl e"
  then show "e = ValueError" by (rule fg_full_buffers_ValueError)
next
  assume "load_and_resize ext bg fg mes = Inr ld"
    "rs = rescale_fg ext ld (estimate ext ld) pos rel"
    "fg_full_buffers ld rs = Inl ValueError"
  then show "run_full_pipeline ext bg fg pos rel mes = Inl ValueError"
    using fg_full_buffers_stops_run by blast
next
  assume "has_shape (fg_mask_rescaled rs) h w" "has_shape (fg_depth_rescaled rs) h w"
    "fg_scaled_height rs = int h" "fg_scaled_width rs = int w"
    "0 \<le> top rs" "0 \<le> left rs"
    "top rs + int h \<le> bg_height ld" "left rs + int w \<le> bg_width ld"
  then show "fg_full_buffers ld rs =
          Inr \<lparr>fg_full_mask = add_chan (tabulate2 (nat (bg_height ld)) (nat (bg_width ld))
                  (\<lambda>i j. if nat (top rs) \<le> i \<and> i < nat (top rs) + h
                            \<and> nat (left rs) \<le> j \<and> j < nat (left rs) + w
                         then float32 (fg_mask_rescaled rs ! (i - nat (top rs)) ! (j - nat (left rs)))
                         else 0)),
               fg_full_depth = tabulate2 (nat (bg_height ld)) (nat (bg_width ld))
                  (\<lambda>i j. if nat (top rs) \<le> i \<and> i < nat (top rs) + h
                            \<and> nat (left rs) \<le> j \<and> j < nat (left rs) + w
                         then float32 (fg_depth_rescaled rs ! (i - nat (top rs)) ! (j - nat (left rs)))
                         else 0)\<rparr>"
    by (rule fg_full_buffers_inside)
next
  assume "has_shape (fg_mask_rescaled rs) h w"
    "fg_scaled_height rs = int h" "fg_scaled_width rs = int w"
    "0 \<le> top rs" "0 \<le> left rs"
    "(1 < h \<and> bg_height ld < top rs + int h) \<or> (1 < w \<and> bg_width ld < left rs + int w)"
  then show "fg_full_buffers ld rs = Inl ValueError"
    by (rule fg_full_buffers_outside)
qed

lemma example_floats2: "py_int (py_mul 1024 (1 / 512)) = 2"
  by code_simp

lemma example4_floats:
  "py_truediv 4 2 = Inr 2" "py_int (py_mul 2 2) = 4" "py_int (py_mul (1 / 2) 4) = 2"
  by code_simp+

lemma load_example4:
  "load_and_resize stub_externals example_bg example_fg 4 = Inr example_loaded4"
  by (simp add: load_and_resize_def Let_def example_chan example_bbox example_crops
        example_floats example4_floats example_bg_facts example_fg_facts example_crop_facts
        stub_externals_def example_loaded_def example_loaded4_def)

lemma rescale_example4:
  "rescale_fg stub_externals example_loaded4 (estimate stub_externals example_loaded4)
     (1 / 2, 1 / 2) (1 / 512) = example_rescaled4"
  by (simp add: rescale_fg_def estimate_def example_loaded4_def example_loaded_def
        example_rescaled4_def stub_externals_def Let_def example4_floats example_floats2
        np_pow_def add_chan_def)

lemma example4_full:
  "tabulate2 4 4 (\<lambda>i j. if 2 \<le> i \<and> i < 4 \<and> 2 \<le> j \<and> j < 4
       then float32 (replicate 2 (replicate 2 (3602879701896397 / 36028797018963968))
                       ! (i - 2) ! (j - 2))
       else 0)
   = [[0, 0, 0, 0], [0, 0, 0, 0],
      [0, 0, 13421773 / 134217728, 13421773 / 134217728],
      [0, 0, 13421773 / 134217728, 13421773 / 134217728]]"
  "tabulate2 4 4 (\<lambda>i j. if 2 \<le> i \<and> i < 4 \<and> 2 \<le> j \<and> j < 4
       then float32 (replicate 2 (replicate 2 1) ! (i - 2) ! (j - 2)) else 0)
   = [[0, 0, 0, 0], [0, 0, 0, 0], [0, 0, 1, 1], [0, 0, 1, 1]]"
  by code_simp+

theorem full_canvas_write_witness:
  "fg_full_buffers example_loaded4 example_rescaled4m =
     Inr \<lparr>fg_full_mask =
            [[[0], [0], [0], [0]], [[0], [0], [0], [0]],
             [[0], [0], [13421773 / 134217728], [13421773 / 134217728]],
             [[0], [0], [13421773 / 134217728], [13421773 / 134217728]]],
          fg_full_depth = [[0, 0, 0, 0], [0, 0, 0, 0], [0, 0, 1, 1], [0, 0, 1, 1]]\<rparr>
   \<and> fg_full_buffers example_loaded (example_rescaled4\<lparr>top := 1, left := 1\<rparr>)
       = Inl ValueError"
proof -
  have p: "has_shape (fg_mask_rescaled example_rescaled4m) 2 2"
    "has_shape (fg_depth_rescaled example_rescaled4m) 2 2"
    "fg_scaled_height example_rescaled4m = int 2" "fg_scaled_width example_rescaled4m = int 2"
    "0 \<le> top example_rescaled4m" "0 \<le> left example_rescaled4m"
    "top example_rescaled4m + int 2 \<le> bg_height example_loaded4"
    "left example_rescaled4m + int 2 \<le> bg_width example_loaded4"
    by (simp_all add: example_rescaled4m_def example_rescaled4_def example_loaded4_def
          example_loaded_def has_shape_def list_all_iff)
  have q: "has_shape (fg_mask_rescaled (example_rescaled4\<lparr>top := 1, left := 1\<rparr>)) 2 2"
    "fg_scaled_height (example_rescaled4\<lparr>top := 1, left := 1\<rparr>) = int 2"
    "fg_scaled_width (example_rescaled4\<lparr>top := 1, left := 1\<rparr>) = int 2"
    "0 \<le> top (example_rescaled4\<lparr>top := 1, left := 1\<rparr>)"
    "0 \<le> left (example_rescaled4\<lparr>top := 1, left := 1\<rparr>)"
    "(1 < (2::nat) \<and> bg_height example_loaded
        < top (example_rescaled4\<lparr>top := 1, left := 1\<rparr>) + int 2)
     \<or> (1 < (2::nat) \<and> bg_width example_loaded
        < left (example_rescaled4\<lparr>top := 1, left := 1\<rparr>) + int 2)"
    by (simp_all add: example_rescaled4_def example_loaded_def has_shape_def list_all_iff)
  note inside = full_canvas_write [where ld = example_loaded4 and rs = example_rescaled4m
      and h = 2 and w = 2, THEN conjunct2, THEN conjunct2, THEN conjunct2, THEN conjunct1,
      rule_format, OF p]
  note outside = full_canvas_write [where ld = example_loaded
      and rs = "example_rescaled4\<lparr>top := 1, left := 1\<rparr>"
      and h = 2 and w = 2, THEN conjunct2, THEN conjunct2, THEN conjunct2, THEN conjunct2,
      rule_format, OF q]
  have "fg_full_buffers example_loaded4 example_rescaled4m =
     Inr \<lparr>fg_full_mask = add_chan (tabulate2 4 4
              (\<lambda>i j. if 2 \<le> i \<and> i < 4 \<and> 2 \<le> j \<and> j < 4
                     then float32 (replicate 2 (replicate 2
                            (3602879701896397 / 36028797018963968)) ! (i - 2) ! (j - 2))
                     else 0)),
          fg_full_depth = tabulate2 4 4
              (\<lambda>i j. if 2 \<le> i \<and> i < 4 \<and> 2 \<le> j \<and> j < 4
                     then float32 (replicate 2 (replicate 2 1) ! (i - 2) ! (j - 2)) else 0)\<rparr>"
    using inside
    by (simp add: example_loaded4_def example_loaded_def example_rescaled4m_def
          example_rescaled4_def cong: if_cong)
  then show ?thesis using outside by (simp add: example4_full add_chan_def)
qed

lemma example_write_fails:
  "patch_shape (replicate 2 (replicate 2 (1::real))) (2, 2) = (2, 2)"
  "set_slice2 float32 (2, 2) [[0, 0], [0, 0]] 1 3 1 3 (2, 2) (replicate 2 (replicate 2 1))
     = Inl ValueError"
  by code_simp+

lemma rescale_example2:
  "rescale_fg stub_externals example_loaded example_estimates (1 / 2, 1 / 2) (1 / 512)
   = example_rescaled4\<lparr>top := 1, left := 1\<rparr>"
  by (simp add: rescale_fg_def example_loaded_def example_estimates_def example_rescaled4_def
        stub_externals_def Let_def example_floats example_floats2)

lemma full_example2:
  "fg_full_buffers example_loaded (example_rescaled4\<lparr>top := 1, left := 1\<rparr>) = Inl ValueError"
  by (simp add: fg_full_buffers_def Let_def example_loaded_def example_rescaled4_def
        example_full example_write_fails)

text \<open>
  With \<^verbatim>\<open>fg_scale_relative = 1/512\<close> the patch of the first run has 2 by 2 pixels and
  reaches past the canvas of 2 by 2 pixels from its offset (1, 1): the run ends in step
  6.2 with a \<open>ValueError\<close>.
\<close>

theorem write_past_canvas_fails:
  "run_full_pipeline stub_externals example_bg example_fg (1 / 2, 1 / 2) (1 / 512) 2
   = Inl ValueError"
  by (simp add: run_full_pipeline_def load_example estimate_example rescale_example2
        full_example2 Let_def)
section \<open>The rescaled crop\<close>

text \<open>
  In every run that returns, the factor that rescales the crop is the module constant
  over the longer edge of the crop, and neither the factor nor the size of the rescaled
  crop depends on \<^verbatim>\<open>max_edge_size\<close>, which only the background is resized with.
\<close>

lemma crop_scale_ignores_max_edge_size:
  assumes "run_full_pipeline ext bg fg pos rel max_edge_size = Inr out"
  shows "fg_scale (loaded_of out) =
           fl (1024 / of_nat (max (fst (crop_shape (loaded_of out)))
                                  (snd (crop_shape (loaded_of out)))))
     \<and> cropped_height (loaded_of out) =
           py_int (fl (of_nat (fst (crop_shape (loaded_of out))) * fg_scale (loaded_of out)))
     \<and> cropped_width (loaded_of out) =
           py_int (fl (of_nat (snd (crop_shape (loaded_of out))) * fg_scale (loaded_of out)))
     \<and> (snd (crop_shape (loaded_of out)) \<le> fst (crop_shape (loaded_of out)) \<longrightarrow>
           cropped_height (loaded_of out) \<in> {1023, 1024})
     \<and> (fst (crop_shape (loaded_of out)) \<le> snd (crop_shape (loaded_of out)) \<longrightarrow>
           cropped_width (loaded_of out) \<in> {1023, 1024})
     \<and> (\<forall>max_edge_size' out'.
           run_full_pipeline ext bg fg pos rel max_edge_size' = Inr out' \<longrightarrow>
             fg_scale (loaded_of out') = fg_scale (loaded_of out)
           \<and> cropped_height (loaded_of out') = cropped_height (loaded_of out)
           \<and> cropped_width (loaded_of out') = cropped_width (loaded_of out))
     \<and> bg_height (loaded_of out) =
           py_int (fl (of_nat (shape0 bg)
             * fl (of_int max_edge_size / of_nat (max (shape0 bg) (shape1 bg)))))
     \<and> bg_width (loaded_of out) =
           py_int (fl (of_nat (shape1 bg)
             * fl (of_int max_edge_size / of_nat (max (shape0 bg) (shape1 bg)))))"
proof -
  define l where "l = loaded_of out"
  have ld: "load_and_resize ext bg fg max_edge_size = Inr l"
    using run_full_pipeline_InrD(1)[OF assms] by (simp add: l_def)
  note s = load_and_resize_sizes[OF ld]
  have sc: "fg_scale l = fl (1024 / of_nat (max (fst (crop_shape l)) (snd (crop_shape l))))"
    using s(6) by (simp add: MAX_EDGE_SIZE_def)
  have h: "snd (crop_shape l) \<le> fst (crop_shape l) \<Longrightarrow> cropped_height l \<in> {1023, 1024}"
    using longer_edge_1024[of "fst (crop_shape l)"] s(5) unfolding s(7) s(6)
    by (simp add: max_def split: if_splits)
  have w: "fst (crop_shape l) \<le> snd (crop_shape l) \<Longrightarrow> cropped_width l \<in> {1023, 1024}"
    using longer_edge_1024[of "snd (crop_shape l)"] s(5) unfolding s(8) s(6)
    by (simp add: max_def split: if_splits)
  have ind: "fg_scale (loaded_of out') = fg_scale l
           \<and> cropped_height (loaded_of out') = cropped_height l
           \<and> cropped_width (loaded_of out') = cropped_width l"
    if "run_full_pipeline ext bg fg pos rel max_edge_size' = Inr out'" for max_edge_size' out'
    using load_and_resize_crop_independent[OF ld run_full_pipeline_InrD(1)[OF that]] by simp
  have bgd: "py_truediv max_edge_size (int (max (shape0 bg) (shape1 bg)))
      = Inr (fl (of_int max_edge_size / of_nat (max (shape0 bg) (shape1 bg))))"
    using s(1) by (simp add: py_truediv_def split: if_splits)
  show ?thesis
    unfolding l_def[symmetric]
    using sc s(7) s(8) h w ind s(2) s(3) by (simp add: py_mul_def bgd)
qed

lemma fg50_facts:
  "chan 3 example_fg50 = Inr (replicate 50 (replicate 50 1))"
  "crop2 0 49 0 49 (chans_upto 3 example_fg50) = replicate 49 (replicate 49 [0, 0, 0])"
  "crop2 0 49 0 49 (replicate 50 (replicate 50 (1::real))) = replicate 49 (replicate 49 1)"
  "shape0 (chans_upto 3 example_fg50) = 50" "shape1 (chans_upto 3 example_fg50) = 50"
  by (simp_all add: chan_def example_fg50_def crop2_def chans_upto_def)

lemma fg50_bbox:
  "get_bbox (replicate 50 (replicate 50 1)) = Inr (0, 49, 0, 49)"
  "slice_bounds 50 0 49 = (0, 49)"
  by code_simp+

lemma fg50_floats:
  "py_truediv MAX_EDGE_SIZE 49 = Inr (5882252574524729 / 281474976710656)"
  "py_int (py_mul 49 (5882252574524729 / 281474976710656)) = 1023"
  "py_int (py_mul 1023 (1 / 512)) = 1"
  by code_simp+

lemma load_fg50:
  "load_and_resize stub_externals example_bg example_fg50 512 =
     Inr (example_loaded\<lparr>bg_height := 512, bg_width := 512,
            bg_im := replicate 512 (replicate 512 [1, 1, 1]),
            bb := (0, 49, 0, 49), crop_shape := (49, 49),
            fg_scale := 5882252574524729 / 281474976710656,
            cropped_height := 1023, cropped_width := 1023,
            fg_im_crop := replicate 1023 (replicate 1023 [0, 0, 0]),
            fg_mask_crop := replicate 1023 (replicate 1023 1)\<rparr>)"
  by (simp add: load_and_resize_def Let_def fg50_facts fg50_bbox fg50_floats example_floats
        example_bg_facts stub_externals_def example_loaded_def)

lemma run_fg50:
  "run_full_pipeline stub_externals example_bg example_fg50 (1 / 2, 1 / 2) (1 / 512) 512
   = Inr example_run50"
  unfolding example_run50_def
proof (rule Inr_projr, rule stub_run_succeeds[OF load_fg50 _ _ _ refl])
  show "py_truediv 512 (max (bg_height (example_loaded\<lparr>bg_height := 512, bg_width := 512,
            bg_im := replicate 512 (replicate 512 [1, 1, 1]),
            bb := (0, 49, 0, 49), crop_shape := (49, 49),
            fg_scale := 5882252574524729 / 281474976710656,
            cropped_height := 1023, cropped_width := 1023,
            fg_im_crop := replicate 1023 (replicate 1023 [0, 0, 0]),
            fg_mask_crop := replicate 1023 (replicate 1023 1)\<rparr>))
          (bg_width (example_loaded\<lparr>bg_height := 512, bg_width := 512,
            bg_im := replicate 512 (replicate 512 [1, 1, 1]),
            bb := (0, 49, 0, 49), crop_shape := (49, 49),
            fg_scale := 5882252574524729 / 281474976710656,
            cropped_height := 1023, cropped_width := 1023,
            fg_im_crop := replicate 1023 (replicate 1023 [0, 0, 0]),
            fg_mask_crop := replicate 1023 (replicate 1023 1)\<rparr>))) = Inr 1"
    by (simp add: example_loaded_def run512_floats)
qed (simp_all add: example_loaded_def example_bg_facts rescale_fg_def Let_def
       fg50_floats run512_floats example_floats)

text \<open>
  C10. The claim has the crop of the foreground rescaled with the module constant
  \<^verbatim>\<open>MAX_EDGE_SIZE\<close> whatever \<^verbatim>\<open>max_edge_size\<close> is, to a longer edge of 1024. That
  is what line 81 does, against the parameter of the function, which lines 62 to 65 use
  for the background: in the run with \<^verbatim>\<open>max_edge_size = 512\<close> the background becomes
  512 by 512 and the crop of 49 by 49 pixels is rescaled with the factor nearest to
  \<open>1024/49\<close>, and not to the edge of 512 that the call asks for. Its longer edge is not
  1024 either: the product of 49 and that factor rounds to a float just below 1024, and
  the crop becomes 1023 by 1023.
\<close>

theorem crop_rescaled_with_constant_at_512:
  "run_full_pipeline stub_externals example_bg example_fg50 (1 / 2, 1 / 2) (1 / 512) 512
     = Inr example_run50
   \<and> bg_height (loaded_of example_run50) = 512
   \<and> bg_width (loaded_of example_run50) = 512
   \<and> crop_shape (loaded_of example_run50) = (49, 49)
   \<and> fg_scale (loaded_of example_run50) = fl (of_int MAX_EDGE_SIZE / 49)
   \<and> cropped_height (loaded_of example_run50) = 1023
   \<and> cropped_width (loaded_of example_run50) = 1023"
proof -
  have f: "fl (of_int MAX_EDGE_SIZE / 49) = 5882252574524729 / 281474976710656"
    by code_simp
  have "loaded_of example_run50 = example_loaded\<lparr>bg_height := 512, bg_width := 512,
            bg_im := replicate 512 (replicate 512 [1, 1, 1]),
            bb := (0, 49, 0, 49), crop_shape := (49, 49),
            fg_scale := 5882252574524729 / 281474976710656,
            cropped_height := 1023, cropped_width := 1023,
            fg_im_crop := replicate 1023 (replicate 1023 [0, 0, 0]),
            fg_mask_crop := replicate 1023 (replicate 1023 1)\<rparr>"
    using run_full_pipeline_InrD(1) [OF run_fg50] by (simp add: load_fg50)
  then show ?thesis using run_fg50 by (simp add: f)
qed
end
